theory Spec2Isabelle
  imports Complex_Main "HOL-Library.Log_Nat"
begin

section \<open>Resolution labels\<close>

text \<open>
  Decimal rendering of a non-negative integer, as a JavaScript template literal
  \<^verbatim>\<open>`${height}p`\<close> renders the number \<open>height\<close>.
\<close>

definition digit :: "nat \<Rightarrow> char" where
  "digit d = ''0123456789'' ! d"

function show_nat :: "nat \<Rightarrow> string" where
  "show_nat n = (if n < 10 then [digit n] else show_nat (n div 10) @ [digit (n mod 10)])"
  by pat_completeness auto
termination
  by (relation "measure id") auto

declare show_nat.simps [simp del]

definition show_int :: "int \<Rightarrow> string" where
  "show_int k = (if k < 0 then ''-'' @ show_nat (nat (- k)) else show_nat (nat k))"

text \<open>\<open>endsWith\<close>, \<open>startsWith\<close> and \<open>includes\<close> of JavaScript strings.\<close>

definition endsWith :: "string \<Rightarrow> string \<Rightarrow> bool" where
  "endsWith suffix str =
     (length suffix \<le> length str \<and> drop (length str - length suffix) str = suffix)"

definition startsWith :: "string \<Rightarrow> string \<Rightarrow> bool" where
  "startsWith pre str = (take (length pre) str = pre)"

fun includes_str :: "string \<Rightarrow> string \<Rightarrow> bool" where
  "includes_str needle [] = (needle = [])"
| "includes_str needle (c # cs) = (startsWith needle (c # cs) \<or> includes_str needle cs)"

text \<open>
  The chain of comparisons that \<open>analyzeHlsStreamInfo\<close> (on the height reported by the
  media inspector) and \<open>_analyzeStreamResolution\<close> (on the height parsed from the
  playlist's \<open>RESOLUTION=WxH\<close> attribute) both apply; the source names the result
  \<open>formattedResolution\<close>.
\<close>

definition formattedResolution :: "nat \<Rightarrow> string" where
  "formattedResolution height =
     (if height \<ge> 1080 then ''1080p''
      else if height \<ge> 720 then ''720p''
      else if height \<ge> 480 then ''480p''
      else if height \<ge> 360 then ''360p''
      else show_nat height @ ''p'')"


section \<open>Stream records\<close>

text \<open>
  The stream manager of the re-streamer keeps one record per stream id. The records are
  JavaScript objects; a field that the source leaves \<open>undefined\<close> or \<open>null\<close> is
  \<open>None\<close> here. Times are milliseconds since the epoch (\<open>Date.now()\<close>); the source
  stores the same instants as ISO strings. Logging and the JSON file written by
  \<open>saveConfig\<close> are not part of the model: \<open>saveConfig\<close> catches its own errors and
  changes nothing in memory. Every record is created with its \<open>stats\<close> and
  \<open>diagnostics\<close> objects, so the branches of the source that create a missing
  \<open>diagnostics\<close> are never taken and have no counterpart here; \<open>errors\<close> is created by
  the first recorded error.
\<close>

type_synonym stream_id = string

datatype stream_status = Stopped | Starting | Running | Error

datatype stream_health = Unknown | Good | Degraded | Poor | Failed

datatype errorType = Network | Source | Ffmpeg | System | Format | Segment

record errorEntry =
  timestamp :: nat
  etype :: errorType
  message :: string

record errors_rec =
  total_e :: nat
  byType :: "(errorType \<times> nat) list"
  recent :: "errorEntry list"

record stats_rec =
  uptime :: nat
  restarts :: nat
  lastError :: "string option"
  lastRestart :: "nat option"

text \<open>
  \<open>systemErrors\<close> is absent from the object literal of \<open>addStream\<close>, so the increment
  \<open>systemErrors++\<close> on it yields \<open>NaN\<close>; \<open>None\<close> stands for both.
\<close>

record diagnostics_rec =
  lastErrorType :: "errorType option"
  errorCount :: nat
  networkErrors :: nat
  sourceErrors :: nat
  ffmpegErrors :: nat
  systemErrors :: "nat option"
  segmentGaps :: nat
  lastHealthCheck :: "nat option"
  healthCheckStatus :: "string option"
  segmentCount :: "nat option"
  latestSegment :: "string option"
  latestSegmentAge :: "int option"
  nextReconnectTime :: "nat option"
  reconnectAttempt :: "nat option"
  maxReconnectAttempts_d :: "nat option"
  consecutiveErrorType :: "errorType option"
  consecutiveErrorCount :: "nat option"
  lastSourceCheck :: "nat option"
  sourceCheckInProgress :: "bool option"
  sourceAvailable :: "bool option"
  sourceCheckResult :: "string option"
  sourceCheckError :: "string option"

record streamInfo_rec =
  resolution :: "string option"

text \<open>
  \<open>selectedResolution\<close> is a string \<open>WxH\<close> matched by \<open>(\d+x\d+)\<close> in the source; it is
  kept as the pair of the two numbers.
\<close>

record stream_rec =
  sid :: stream_id
  name :: string
  url :: string
  status :: stream_status
  health :: stream_health
  stats :: stats_rec
  diagnostics :: diagnostics_rec
  errors :: "errors_rec option"
  createdAt :: nat
  hlsPath :: "string option"
  selectedResolution :: "(nat \<times> nat) option"
  streamInfo :: "streamInfo_rec option"

record variantInfo =
  v_resolution :: "(nat \<times> nat) option"
  v_bandwidth :: nat
  v_height :: nat

section \<open>The stream manager\<close>

text \<open>
  The fields of \<open>StreamManager\<close>: the configuration read from the environment and the
  tables keyed by stream id. A process handle is the number of the spawned process. A
  timer table holds, under an id, the timer created for it (its delay or period in
  milliseconds); \<open>clearTimeout\<close>/\<open>clearInterval\<close> followed by \<open>delete\<close> removes the entry.
  \<open>hlsDirs\<close> and \<open>screenshotFiles\<close> are the ids that have a segment directory under
  \<open>data/hls\<close> and a preview image under \<open>data/screenshots\<close>; \<open>signals\<close> lists the signals
  sent to processes.
\<close>

record manager =
  maxReconnectAttempts :: nat
  reconnectDelay :: nat
  maxBackoffDelay :: nat
  hlsSegmentTime :: nat
  maxSegmentAge :: nat
  screenshotInterval :: nat
  segmentHealthCheckInterval :: nat
  streams :: "stream_id \<rightharpoonup> stream_rec"
  processes :: "stream_id \<rightharpoonup> nat"
  reconnectAttempts :: "stream_id \<rightharpoonup> nat"
  reconnectTimers :: "stream_id \<rightharpoonup> rat"
  screenshotTimers :: "stream_id \<rightharpoonup> nat"
  segmentHealthChecks :: "stream_id \<rightharpoonup> nat"
  monitors :: "stream_id \<rightharpoonup> nat"
  selectedVariantInfo :: "variantInfo option"
  hlsDirs :: "stream_id set"
  screenshotFiles :: "stream_id set"
  signals :: "(nat \<times> string) list"

text \<open>
  The environment variables the manager reads, each \<open>None\<close> when unset (or empty) and
  otherwise the number it holds.
\<close>

record env =
  MAX_RECONNECT_ATTEMPTS :: "nat option"
  RECONNECT_DELAY :: "nat option"
  MAX_BACKOFF_DELAY :: "nat option"
  HLS_SEGMENT_TIME :: "nat option"
  MAX_SEGMENT_AGE :: "nat option"
  SCREENSHOT_INTERVAL :: "nat option"
  SEGMENT_HEALTH_CHECK_INTERVAL :: "nat option"

definition orDefault :: "nat option \<Rightarrow> nat \<Rightarrow> nat" where
  "orDefault v d = (case v of None \<Rightarrow> d | Some n \<Rightarrow> n)"

definition noEnv :: env where
  "noEnv = \<lparr>MAX_RECONNECT_ATTEMPTS = None, RECONNECT_DELAY = None, MAX_BACKOFF_DELAY = None,
     HLS_SEGMENT_TIME = None, MAX_SEGMENT_AGE = None, SCREENSHOT_INTERVAL = None,
     SEGMENT_HEALTH_CHECK_INTERVAL = None\<rparr>"

text \<open>The constructor, on a data directory with no saved configuration.\<close>

definition constructor :: "env \<Rightarrow> manager" where
  "constructor e =
     \<lparr>maxReconnectAttempts = orDefault (MAX_RECONNECT_ATTEMPTS e) 10,
      reconnectDelay = orDefault (RECONNECT_DELAY e) 5 * 1000,
      maxBackoffDelay = orDefault (MAX_BACKOFF_DELAY e) 60 * 1000,
      hlsSegmentTime = orDefault (HLS_SEGMENT_TIME e) 4,
      maxSegmentAge = orDefault (MAX_SEGMENT_AGE e) 3 * orDefault (HLS_SEGMENT_TIME e) 4 * 1000,
      screenshotInterval = orDefault (SCREENSHOT_INTERVAL e) 60 * 1000,
      segmentHealthCheckInterval = orDefault (SEGMENT_HEALTH_CHECK_INTERVAL e) 15 * 1000,
      streams = Map.empty, processes = Map.empty, reconnectAttempts = Map.empty,
      reconnectTimers = Map.empty, screenshotTimers = Map.empty,
      segmentHealthChecks = Map.empty, monitors = Map.empty,
      selectedVariantInfo = None, hlsDirs = {}, screenshotFiles = {}, signals = []\<rparr>"

definition getStream :: "stream_id \<Rightarrow> manager \<Rightarrow> stream_rec option" where
  "getStream i s = streams s i"

text \<open>
  \<open>addStream\<close>; the id is the value \<open>uuidv4()\<close> returns, an input of the model. Returns
  the new record and the updated manager.
\<close>

definition newDiagnostics :: diagnostics_rec where
  "newDiagnostics =
     \<lparr>lastErrorType = None, errorCount = 0, networkErrors = 0, sourceErrors = 0,
      ffmpegErrors = 0, systemErrors = None, segmentGaps = 0, lastHealthCheck = None,
      healthCheckStatus = None, segmentCount = None, latestSegment = None,
      latestSegmentAge = None, nextReconnectTime = None, reconnectAttempt = None,
      maxReconnectAttempts_d = None, consecutiveErrorType = None,
      consecutiveErrorCount = None, lastSourceCheck = None, sourceCheckInProgress = None,
      sourceAvailable = None, sourceCheckResult = None, sourceCheckError = None\<rparr>"

definition addStream ::
  "stream_id \<Rightarrow> nat \<Rightarrow> string \<Rightarrow> string \<Rightarrow> manager \<Rightarrow> stream_rec \<times> manager" where
  "addStream uuid now nm u s =
     (let stream = \<lparr>sid = uuid, name = nm, url = u, status = Stopped, health = Unknown,
            stats = \<lparr>uptime = 0, restarts = 0, lastError = None, lastRestart = None\<rparr>,
            diagnostics = newDiagnostics, errors = None, createdAt = now, hlsPath = None,
            selectedResolution = None, streamInfo = None\<rparr>
      in (stream, s\<lparr>streams := (streams s)(uuid \<mapsto> stream)\<rparr>))"

definition modifyStream ::
  "stream_id \<Rightarrow> (stream_rec \<Rightarrow> stream_rec) \<Rightarrow> manager \<Rightarrow> manager" where
  "modifyStream i f s =
     (case streams s i of None \<Rightarrow> s | Some st \<Rightarrow> s\<lparr>streams := (streams s)(i \<mapsto> f st)\<rparr>)"

section \<open>Error history\<close>

definition showErrorType :: "errorType \<Rightarrow> string" where
  "showErrorType t = (case t of Network \<Rightarrow> ''network'' | Source \<Rightarrow> ''source''
     | Ffmpeg \<Rightarrow> ''ffmpeg'' | System \<Rightarrow> ''system'' | Format \<Rightarrow> ''format''
     | Segment \<Rightarrow> ''segment'')"

text \<open>
  \<open>analyzeErrorPatterns\<close>: the class body defines the method twice and the later
  definition is the one in effect. It marks three consecutive errors of one type.
\<close>

definition analyzeErrorPatterns :: "stream_rec \<Rightarrow> stream_rec" where
  "analyzeErrorPatterns st =
     (case errors st of None \<Rightarrow> st
      | Some es \<Rightarrow>
          if length (recent es) < 3 then st
          else (case drop (length (recent es) - 3) (recent es) of
                  [] \<Rightarrow> st
                | e # rest \<Rightarrow>
                    if list_all (\<lambda>x. etype x = etype e) (e # rest)
                    then st\<lparr>diagnostics := (diagnostics st)
                           \<lparr>consecutiveErrorType := Some (etype e),
                            consecutiveErrorCount := Some (length (e # rest))\<rparr>\<rparr>
                    else st))"

definition bumpCounter :: "errorType \<Rightarrow> diagnostics_rec \<Rightarrow> diagnostics_rec" where
  "bumpCounter t d =
     (case t of
        Network \<Rightarrow> d\<lparr>networkErrors := networkErrors d + 1\<rparr>
      | Source \<Rightarrow> d\<lparr>sourceErrors := sourceErrors d + 1\<rparr>
      | Ffmpeg \<Rightarrow> d\<lparr>ffmpegErrors := ffmpegErrors d + 1\<rparr>
      | System \<Rightarrow> d\<lparr>systemErrors := map_option Suc (systemErrors d)\<rparr>
      | Format \<Rightarrow> d
      | Segment \<Rightarrow> d)"

text \<open>
  \<open>_recordError\<close> on one record: push the entry, keep the last ten (\<open>slice(-10)\<close>), update
  the counters and the last error.
\<close>

definition pushRecent :: "errorEntry \<Rightarrow> errorEntry list \<Rightarrow> errorEntry list" where
  "pushRecent e es =
     (let pushed = es @ [e]
      in if length pushed > 10 then drop (length pushed - 10) pushed else pushed)"

definition recordOnStream :: "errorType \<Rightarrow> string \<Rightarrow> nat \<Rightarrow> stream_rec \<Rightarrow> stream_rec" where
  "recordOnStream t msg now st =
     (let es = (case errors st of None \<Rightarrow> \<lparr>total_e = 0, byType = [], recent = []\<rparr>
                | Some es \<Rightarrow> es);
          es' = es\<lparr>recent := pushRecent
                  \<lparr>timestamp = now, etype = t, message = take 500 msg\<rparr> (recent es)\<rparr>;
          d = (diagnostics st)\<lparr>lastErrorType := Some t,
                 errorCount := errorCount (diagnostics st) + 1\<rparr>
      in analyzeErrorPatterns
           (st\<lparr>errors := Some es', diagnostics := bumpCounter t d,
               stats := (stats st)\<lparr>lastError :=
                 Some (''['' @ showErrorType t @ ''] '' @ take 200 msg)\<rparr>\<rparr>))"

definition recordError ::
  "stream_id \<Rightarrow> errorType \<Rightarrow> string \<Rightarrow> nat \<Rightarrow> manager \<Rightarrow> manager" where
  "recordError i t msg now s = modifyStream i (recordOnStream t msg now) s"

text \<open>Errors recorded one after the other: type, message and time of each.\<close>

fun recordErrors ::
  "stream_id \<Rightarrow> (errorType \<times> string \<times> nat) list \<Rightarrow> manager \<Rightarrow> manager" where
  "recordErrors i [] s = s"
| "recordErrors i ((t, msg, now) # rest) s = recordErrors i rest (recordError i t msg now s)"

definition entryOf :: "errorType \<times> string \<times> nat \<Rightarrow> errorEntry" where
  "entryOf x = (case x of (t, msg, now) \<Rightarrow>
     \<lparr>timestamp = now, etype = t, message = take 500 msg\<rparr>)"

definition recentOf :: "stream_id \<Rightarrow> manager \<Rightarrow> errorEntry list" where
  "recentOf i s =
     (case streams s i of None \<Rightarrow> []
      | Some st \<Rightarrow> (case errors st of None \<Rightarrow> [] | Some es \<Rightarrow> recent es))"

section \<open>JavaScript numbers\<close>

text \<open>
  The numbers of the source are IEEE doubles. The ones that occur in the reconnect delay
  are 0 or at least 1, and \<open>toDouble\<close> gives for such a rational the nearest double, a tie
  going to the even significand: with \<open>2^e\<close> the power of two at or below \<open>x\<close>, the
  doubles around \<open>x\<close> are the multiples of \<open>2^(e - 52)\<close>. Doubles end below \<open>2^1024\<close>,
  beyond which an operation gives \<open>Infinity\<close>; the model has no such value and says
  where that matters.
\<close>

definition roundHalfEven :: "rat \<Rightarrow> int" where
  "roundHalfEven q =
     (let f = \<lfloor>q\<rfloor>; r = q - of_int f
      in if r < 1 / 2 then f else if 1 / 2 < r then f + 1 else if even f then f else f + 1)"

definition toDouble :: "rat \<Rightarrow> rat" where
  "toDouble x =
     (if x < 1 then x
      else let e = floorlog 2 (nat \<lfloor>x\<rfloor>) - 1
           in if e \<le> 52 then of_int (roundHalfEven (x * 2 ^ (52 - e))) / 2 ^ (52 - e)
              else of_int (roundHalfEven (x / 2 ^ (e - 52))) * 2 ^ (e - 52))"

text \<open>
  \<open>Math.min(baseDelay * Math.pow(1.5, attempt), maxBackoffDelay)\<close>. \<open>Math.pow\<close> is taken
  to return the double nearest to the power (up to the 33rd, the powers of 1.5 are
  doubles themselves), and the product is rounded once more. From the 1751st power on
  \<open>Math.pow\<close> returns \<open>Infinity\<close>: with a base delay of 0 the product is then \<open>NaN\<close> and
  so is the minimum, which is the result \<open>None\<close>; with any other base delay the product
  is above the cap, as it is here. The cap is a double.
\<close>

definition backoffDelay :: "nat \<Rightarrow> nat \<Rightarrow> nat \<Rightarrow> rat option" where
  "backoffDelay baseDelay cap attempt =
     (let p = toDouble ((3 / 2) ^ attempt)
      in if 2 ^ 1024 \<le> p \<and> baseDelay = 0 then None
         else Some (min (toDouble (of_nat baseDelay * p)) (of_nat cap)))"

text \<open>
  \<open>new Date(Date.now() + delay).toISOString()\<close>: the time in whole milliseconds, or
  \<open>None\<close> when the sum is beyond the range of \<open>Date\<close> and \<open>toISOString\<close> throws a
  \<open>RangeError\<close>.
\<close>

definition isoTime :: "nat \<Rightarrow> rat \<Rightarrow> nat option" where
  "isoTime now delay =
     (let t = toDouble (of_nat now + delay)
      in if t > 8640000000000000 then None else Some (nat \<lfloor>t\<rfloor>))"

text \<open>
  The delay a timer of Node is created with: \<open>setTimeout\<close> replaces a delay below 1 or
  above \<open>2^31 - 1\<close> milliseconds by 1.
\<close>

definition timeoutDelay :: "rat \<Rightarrow> rat" where
  "timeoutDelay after = (if 1 \<le> after \<and> after \<le> 2147483647 then after else 1)"

section \<open>Reconnection\<close>

text \<open>
  \<open>handleReconnect\<close>. An attempt counter that is still \<open>undefined\<close> is first set to 0.
  Below the maximum the delay is computed and the time of the next attempt is written to
  the diagnostics; if that time cannot be formatted the exception leaves the function
  there, before the counter is incremented and the timer created. The timer created by
  \<open>setTimeout\<close> is entered in \<open>reconnectTimers\<close> with its delay.
\<close>

definition handleReconnect :: "stream_id \<Rightarrow> nat \<Rightarrow> manager \<Rightarrow> manager" where
  "handleReconnect i now s =
     (case streams s i of None \<Rightarrow> s
      | Some st \<Rightarrow>
          let attempt = orDefault (reconnectAttempts s i) 0;
              s0 = s\<lparr>reconnectAttempts := (reconnectAttempts s)(i \<mapsto> attempt)\<rparr>
          in if attempt \<ge> maxReconnectAttempts s
             then s0\<lparr>streams := (streams s)(i \<mapsto> st\<lparr>status := Error, health := Failed,
                      diagnostics := (diagnostics st)
                        \<lparr>healthCheckStatus := Some ''max_reconnect_exceeded''\<rparr>\<rparr>)\<rparr>
             else
               case backoffDelay (reconnectDelay s) (maxBackoffDelay s) attempt of
                 None \<Rightarrow> s0
               | Some delay \<Rightarrow>
                   (case isoTime now delay of
                      None \<Rightarrow> s0
                    | Some t \<Rightarrow>
                        s0\<lparr>streams := (streams s)(i \<mapsto> st\<lparr>diagnostics := (diagnostics st)
                              \<lparr>nextReconnectTime := Some t,
                               reconnectAttempt := Some (attempt + 1),
                               maxReconnectAttempts_d := Some (maxReconnectAttempts s)\<rparr>\<rparr>),
                            reconnectAttempts := (reconnectAttempts s)(i \<mapsto> attempt + 1),
                            reconnectTimers := (reconnectTimers s)(i \<mapsto> timeoutDelay delay)\<rparr>))"

section \<open>Stopping, starting, restarting\<close>

definition clearScreenshotTimer :: "stream_id \<Rightarrow> manager \<Rightarrow> manager" where
  "clearScreenshotTimer i s = s\<lparr>screenshotTimers := (screenshotTimers s)(i := None)\<rparr>"

definition clearSegmentHealthCheck :: "stream_id \<Rightarrow> manager \<Rightarrow> manager" where
  "clearSegmentHealthCheck i s = s\<lparr>segmentHealthChecks := (segmentHealthChecks s)(i := None)\<rparr>"

definition clearMonitoring :: "stream_id \<Rightarrow> manager \<Rightarrow> manager" where
  "clearMonitoring i s = s\<lparr>monitors := (monitors s)(i := None)\<rparr>"

definition setupMonitoring :: "stream_id \<Rightarrow> manager \<Rightarrow> manager" where
  "setupMonitoring i s =
     (let s1 = clearMonitoring i s in s1\<lparr>monitors := (monitors s1)(i \<mapsto> 1000)\<rparr>)"

definition startScreenshotTimer :: "stream_id \<Rightarrow> manager \<Rightarrow> manager" where
  "startScreenshotTimer i s =
     s\<lparr>screenshotTimers := (screenshotTimers s)(i \<mapsto> screenshotInterval s)\<rparr>"

definition startSegmentHealthCheck :: "stream_id \<Rightarrow> manager \<Rightarrow> manager" where
  "startSegmentHealthCheck i s =
     s\<lparr>segmentHealthChecks := (segmentHealthChecks s)(i \<mapsto> segmentHealthCheckInterval s)\<rparr>"

text \<open>
  \<open>stopStream\<close>. The body after the two early returns runs in a \<open>try\<close> block whose
  handler returns \<open>false\<close>; the call in it that can throw is \<open>kill\<close>, the first one, and
  \<open>killThrows\<close> says whether it does.
\<close>

definition stopStream :: "stream_id \<Rightarrow> bool \<Rightarrow> manager \<Rightarrow> bool \<times> manager" where
  "stopStream i killThrows s =
     (case streams s i of None \<Rightarrow> (False, s)
      | Some st \<Rightarrow>
          if status st = Stopped then (True, s)
          else if processes s i \<noteq> None \<and> killThrows then (False, s)
          else
            let s1 = (case processes s i of None \<Rightarrow> s
                      | Some p \<Rightarrow> s\<lparr>signals := signals s @ [(p, ''SIGTERM'')],
                                     processes := (processes s)(i := None)\<rparr>);
                s2 = s1\<lparr>reconnectTimers := (reconnectTimers s1)(i := None)\<rparr>;
                s3 = clearMonitoring i (clearSegmentHealthCheck i (clearScreenshotTimer i s2))
            in (True, modifyStream i (\<lambda>st. st\<lparr>status := Stopped, health := Unknown\<rparr>) s3))"

text \<open>
  \<open>restartStream\<close>: the part that runs before it returns. The \<open>startStream\<close> it defers by a
  second is a later call of \<open>startStream\<close>.
\<close>

definition restartStream :: "stream_id \<Rightarrow> bool \<Rightarrow> manager \<Rightarrow> bool \<times> manager" where
  "restartStream i killThrows s =
     (case streams s i of None \<Rightarrow> (False, s)
      | Some st \<Rightarrow>
          (case stopStream i killThrows s of
             (success, s1) \<Rightarrow>
               if success
               then (True, modifyStream i (\<lambda>st. st\<lparr>stats := (stats st)\<lparr>restarts := 0\<rparr>\<rparr>) s1)
               else (False, s1)))"

definition hlsDir :: string where
  "hlsDir = ''data/hls''"

text \<open>
  \<open>startStream\<close> up to the point where it returns its promise: \<open>Some b\<close> is a promise
  already resolved with \<open>b\<close>, \<open>None\<close> one that is pending on the playlist analysis.
\<close>

definition startStream :: "stream_id \<Rightarrow> manager \<Rightarrow> bool option \<times> manager" where
  "startStream i s =
     (case streams s i of None \<Rightarrow> (Some False, s)
      | Some st \<Rightarrow>
          if status st = Running then (Some True, s)
          else (None,
                s\<lparr>streams := (streams s)(i \<mapsto>
                     st\<lparr>status := Starting, hlsPath := Some (hlsDir @ ''/'' @ i)\<rparr>),
                  hlsDirs := insert i (hlsDirs s),
                  reconnectAttempts := (reconnectAttempts s)(i \<mapsto> 0),
                  reconnectTimers := (reconnectTimers s)(i := None)\<rparr>))"

text \<open>
  The continuation of \<open>startStream\<close>, run once \<open>analyzeHlsPlaylist\<close> has resolved with
  \<open>selectedUrl\<close>, having assigned \<open>this.selectedVariantInfo\<close> if it selected a variant.
  \<open>spawn\<close> either returns a process or throws. The record it works on is the one held
  under the id.
\<close>

datatype spawnOutcome = Spawned nat | SpawnThrows string

definition applySelection :: "string \<Rightarrow> variantInfo option \<Rightarrow> stream_rec \<Rightarrow> stream_rec" where
  "applySelection selectedUrl info st =
     (let st1 = st\<lparr>url := selectedUrl\<rparr>
      in case info of None \<Rightarrow> st1
         | Some v \<Rightarrow>
             (case v_resolution v of None \<Rightarrow> st1
              | Some (w, h) \<Rightarrow>
                  st1\<lparr>selectedResolution := Some (w, h),
                      streamInfo := Some \<lparr>resolution = Some (formattedResolution h)\<rparr>\<rparr>))"

definition startStream_then ::
  "stream_id \<Rightarrow> string \<Rightarrow> variantInfo option \<Rightarrow> spawnOutcome \<Rightarrow> nat \<Rightarrow> manager
     \<Rightarrow> bool \<times> manager" where
  "startStream_then i selectedUrl variant outcome now s =
     (let sa = (case variant of None \<Rightarrow> s | Some v \<Rightarrow> s\<lparr>selectedVariantInfo := Some v\<rparr>);
          s1 = (if selectedUrl = [] then sa
                else modifyStream i (applySelection selectedUrl (selectedVariantInfo sa)) sa)
      in case outcome of
           Spawned p \<Rightarrow>
             (True,
              startSegmentHealthCheck i (startScreenshotTimer i (setupMonitoring i
                (modifyStream i (\<lambda>st. st\<lparr>status := Running\<rparr>)
                   (s1\<lparr>processes := (processes s1)(i \<mapsto> p)\<rparr>)))))
         | SpawnThrows msg \<Rightarrow>
             (False,
              recordError i System (''Failed to start: '' @ msg) now
                (modifyStream i (\<lambda>st. st\<lparr>status := Error\<rparr>) s1)))"

section \<open>Process exit and the reconnect cycle\<close>

definition exitMessage :: "int option \<Rightarrow> string option \<Rightarrow> string" where
  "exitMessage code signal =
     ''Process exited with code '' @ (case code of None \<Rightarrow> ''null'' | Some c \<Rightarrow> show_int c)
       @ '' and signal '' @ (case signal of None \<Rightarrow> ''null'' | Some sg \<Rightarrow> sg)"

text \<open>
  The \<open>exit\<close> handler that \<open>startStream\<close> registers on the spawned process. (The method
  \<open>handleProcessExit\<close> of the class is called from nowhere.)
\<close>

definition processExit ::
  "stream_id \<Rightarrow> int option \<Rightarrow> string option \<Rightarrow> nat \<Rightarrow> manager \<Rightarrow> manager" where
  "processExit i code signal now s =
     (case streams s i of None \<Rightarrow> s
      | Some st \<Rightarrow>
          if status st = Running
          then
            let s1 = recordError i Ffmpeg (exitMessage code signal) now s;
                s2 = modifyStream i (\<lambda>st. st\<lparr>status := Error\<rparr>) s1;
                s3 = s2\<lparr>processes := (processes s2)(i := None)\<rparr>
            in handleReconnect i now s3
          else s)"

text \<open>
  \<open>testSourceUrl\<close> in two steps: up to the launch of the probe, and what ends it: the
  \<open>close\<close> event of the probe with its exit code and error output, the ten-second
  timeout, or an exception of \<open>spawn\<close> when the probe is launched. The result is what the
  promise settles with: \<open>Some b\<close> when it resolves with \<open>b\<close>, \<open>None\<close> when it is
  rejected. \<open>spawn\<close> is called in the executor of the promise, out of reach of the
  \<open>try\<close> block, so its exception rejects the promise and leaves the diagnostics as they
  are.
\<close>

datatype probeOutcome = ProbeClosed nat string | ProbeTimeout | ProbeThrows string

definition testSourceUrl_begin :: "stream_id \<Rightarrow> nat \<Rightarrow> manager \<Rightarrow> manager" where
  "testSourceUrl_begin i now s =
     modifyStream i (\<lambda>st. st\<lparr>diagnostics := (diagnostics st)
        \<lparr>lastSourceCheck := Some now, sourceCheckInProgress := Some True\<rparr>\<rparr>) s"

definition testSourceUrl_end ::
  "stream_id \<Rightarrow> probeOutcome \<Rightarrow> manager \<Rightarrow> bool option \<times> manager" where
  "testSourceUrl_end i outcome s =
     (case streams s i of None \<Rightarrow> (Some False, s)
      | Some st \<Rightarrow>
          (case outcome of
             ProbeTimeout \<Rightarrow>
               (Some False,
                s\<lparr>streams := (streams s)(i \<mapsto> st\<lparr>diagnostics := (diagnostics st)
                  \<lparr>sourceCheckInProgress := Some False, sourceAvailable := Some False,
                   sourceCheckResult := Some ''timeout''\<rparr>\<rparr>)\<rparr>)
           | ProbeThrows msg \<Rightarrow> (None, s)
           | ProbeClosed code errorOutput \<Rightarrow>
               (Some (code = 0),
                s\<lparr>streams := (streams s)(i \<mapsto> st\<lparr>diagnostics := (diagnostics st)
                  \<lparr>sourceCheckInProgress := Some False, sourceAvailable := Some (code = 0),
                   sourceCheckResult := Some (if code = 0 then ''success'' else ''failed''),
                   sourceCheckError :=
                     (if code \<noteq> 0 \<and> errorOutput \<noteq> [] then Some (take 200 errorOutput)
                      else sourceCheckError (diagnostics st))\<rparr>\<rparr>)\<rparr>)))"

text \<open>
  The callback of the reconnect timer, once the source test has settled. The \<open>then\<close> of
  the source has no handler for a rejection: after one the reconnect cycle goes no
  further.
\<close>

definition reconnect_then :: "stream_id \<Rightarrow> probeOutcome \<Rightarrow> nat \<Rightarrow> manager \<Rightarrow> manager" where
  "reconnect_then i outcome now s =
     (case testSourceUrl_end i outcome s of
        (None, s1) \<Rightarrow> s1
      | (Some isValid, s1) \<Rightarrow>
          if isValid then snd (startStream i s1) else handleReconnect i now s1)"

text \<open>
  The handler of the process's \<open>stderr\<close>, on the trimmed text of one chunk: a chunk that
  mentions an error is recorded under the category its wording gives.
\<close>

definition stderrData :: "stream_id \<Rightarrow> string \<Rightarrow> nat \<Rightarrow> manager \<Rightarrow> manager" where
  "stderrData i output now s =
     (if includes_str ''Error'' output \<or> includes_str ''error'' output
         \<or> includes_str ''failed'' output
      then
        if includes_str ''Connection refused'' output \<or> includes_str ''Connection reset'' output
        then recordError i Network (''Connection error: '' @ take 100 output) now s
        else if includes_str ''404'' output \<or> includes_str ''403'' output
        then recordError i Source (''Source error: '' @ take 100 output) now s
        else if includes_str ''Invalid data'' output
                \<or> includes_str ''Error while decoding'' output
        then recordError i Format (''Format error: '' @ take 100 output) now s
        else recordError i Ffmpeg (''FFmpeg error: '' @ take 100 output) now s
      else s)"

text \<open>The callback of the monitoring interval, once a second.\<close>

definition uptimeTick :: "stream_id \<Rightarrow> manager \<Rightarrow> manager" where
  "uptimeTick i s =
     (case streams s i of None \<Rightarrow> s
      | Some st \<Rightarrow>
          if status st = Running
          then s\<lparr>streams := (streams s)(i \<mapsto>
                   st\<lparr>stats := (stats st)\<lparr>uptime := uptime (stats st) + 1\<rparr>\<rparr>)\<rparr>
          else s)"

section \<open>Deleting a stream\<close>

text \<open>
  \<open>deleteStream\<close>. \<open>rmFails\<close> and \<open>unlinkFails\<close> say whether removing the segment
  directory and the preview image fails; the source logs either failure and goes on. The
  directory is removed by an asynchronous \<open>fs.rm\<close>; the model removes it at once.
\<close>

definition deleteStream ::
  "stream_id \<Rightarrow> bool \<Rightarrow> bool \<Rightarrow> bool \<Rightarrow> manager \<Rightarrow> bool \<times> manager" where
  "deleteStream i killThrows rmFails unlinkFails s =
     (case streams s i of None \<Rightarrow> (False, s)
      | Some st \<Rightarrow>
          let s1 = (if status st = Running then snd (stopStream i killThrows s) else s);
              s2 = (if rmFails then s1 else s1\<lparr>hlsDirs := hlsDirs s1 - {i}\<rparr>);
              s3 = (if unlinkFails then s2 else s2\<lparr>screenshotFiles := screenshotFiles s2 - {i}\<rparr>);
              s4 = clearMonitoring i (clearSegmentHealthCheck i (clearScreenshotTimer i s3));
              s5 = s4\<lparr>streams := (streams s4)(i := None)\<rparr>
          in (True, s5\<lparr>processes := (processes s5)(i := None)\<rparr>))"

section \<open>Sequences of calls and callbacks\<close>

text \<open>
  The manager runs on one thread: a call such as \<open>stopStream\<close> runs to its end, while
  \<open>startStream\<close> and the reconnect cycle are cut at the points where they wait (for the
  playlist analysis, for the source test, for a timer). An event is one such uninterrupted
  piece, with what the outside world answered: the outcome of \<open>spawn\<close>, of \<open>kill\<close>, of
  the source test, the exit code of the process, its error output, the time. \<open>run\<close>
  applies a sequence of events in order.
\<close>

datatype event =
    StartStream stream_id
  | StartThen stream_id string "variantInfo option" spawnOutcome nat
  | StopStream stream_id bool
  | RestartStream stream_id bool
  | ProcessExit stream_id "int option" "string option" nat
  | ReconnectTimer stream_id nat
  | SourceTested stream_id probeOutcome nat
  | StderrData stream_id string nat
  | UptimeTick stream_id

fun step :: "event \<Rightarrow> manager \<Rightarrow> manager" where
  "step (StartStream i) s = snd (startStream i s)"
| "step (StartThen i selectedUrl variant outcome now) s =
     snd (startStream_then i selectedUrl variant outcome now s)"
| "step (StopStream i killThrows) s = snd (stopStream i killThrows s)"
| "step (RestartStream i killThrows) s = snd (restartStream i killThrows s)"
| "step (ProcessExit i code signal now) s = processExit i code signal now s"
| "step (ReconnectTimer i now) s = testSourceUrl_begin i now s"
| "step (SourceTested i outcome now) s = reconnect_then i outcome now s"
| "step (StderrData i output now) s = stderrData i output now s"
| "step (UptimeTick i) s = uptimeTick i s"

fun run :: "event list \<Rightarrow> manager \<Rightarrow> manager" where
  "run [] s = s"
| "run (e # es) s = run es (step e s)"

section \<open>Segment health\<close>

text \<open>
  \<open>_updateStreamHealth\<close>: with a health given it stores it; without one it counts the
  errors of the last five minutes.
\<close>

definition updateStreamHealth ::
  "stream_id \<Rightarrow> stream_health option \<Rightarrow> nat \<Rightarrow> manager \<Rightarrow> manager" where
  "updateStreamHealth i h now s =
     modifyStream i (\<lambda>st.
       case h of
         Some h' \<Rightarrow> st\<lparr>health := h'\<rparr>
       | None \<Rightarrow>
           let recentErrors = filter (\<lambda>e. int (timestamp e) > int now - 5 * 60 * 1000)
                 (case errors st of None \<Rightarrow> [] | Some es \<Rightarrow> recent es)
           in if status st \<noteq> Running
              then st\<lparr>health := (if health st = Unknown then Good else health st)\<rparr>
              else if length recentErrors = 0 then st\<lparr>health := Good\<rparr>
              else if length recentErrors \<le> 2 then st\<lparr>health := Degraded\<rparr>
              else st\<lparr>health := Poor\<rparr>) s"

text \<open>The number of matches of \<open>/\.ts/g\<close>.\<close>

fun count_ts :: "string \<Rightarrow> nat" where
  "count_ts (a # b # c # rest) =
     (if [a, b, c] = ''.ts'' then 1 + count_ts rest else count_ts (b # c # rest))"
| "count_ts _ = 0"

text \<open>
  \<open>sort((a, b) => b.key - a.key)\<close>: descending, and stable, so that among equal keys the
  earlier element stays first.
\<close>

fun insertDesc :: "('a \<Rightarrow> nat) \<Rightarrow> 'a \<Rightarrow> 'a list \<Rightarrow> 'a list" where
  "insertDesc key x [] = [x]"
| "insertDesc key x (y # ys) =
     (if key y \<le> key x then x # y # ys else y # insertDesc key x ys)"

definition sortDesc :: "('a \<Rightarrow> nat) \<Rightarrow> 'a list \<Rightarrow> 'a list" where
  "sortDesc key xs = foldr (insertDesc key) xs []"

text \<open>
  What a health check finds in the segment directory of a stream: the playlist file
  (absent, unreadable, or its content), what the three regular expressions of
  \<open>_analyzeStreamResolution\<close> match in it, and the directory's files with their
  modification time and size, in the order \<open>readdirSync\<close> lists them.
\<close>

datatype playlistRead = NoPlaylist | ReadThrows string | Content string

record segFile =
  f_name :: string
  f_time :: nat
  f_size :: nat

record dirView =
  playlist :: playlistRead
  streamInfResolution :: "(nat \<times> nat) option"
  anyResolution :: "(nat \<times> nat) option"
  streamInfBandwidth :: "nat option"
  files :: "segFile list"

definition segmentFiles :: "dirView \<Rightarrow> segFile list" where
  "segmentFiles v = sortDesc f_time (filter (\<lambda>f. endsWith ''.ts'' (f_name f)) (files v))"

definition showResolution :: "nat \<times> nat \<Rightarrow> string" where
  "showResolution r = (case r of (w, h) \<Rightarrow> show_nat w @ ''x'' @ show_nat h)"

definition analyzeStreamResolution :: "stream_id \<Rightarrow> dirView \<Rightarrow> manager \<Rightarrow> string option" where
  "analyzeStreamResolution i v s =
     (case streams s i of None \<Rightarrow> None
      | Some st \<Rightarrow>
          if hlsPath st = None \<or> i \<notin> hlsDirs s then None
          else (case selectedResolution st of
             Some (w, h) \<Rightarrow>
               if h \<ge> 1080 then Some ''1080p''
               else if h \<ge> 720 then Some ''720p''
               else if h \<ge> 480 then Some ''480p''
               else if h \<ge> 360 then Some ''360p''
               else Some (showResolution (w, h))
           | None \<Rightarrow>
               (case playlist v of
                  NoPlaylist \<Rightarrow> None
                | ReadThrows msg \<Rightarrow> None
                | Content content \<Rightarrow>
                    (case streamInfResolution v of
                       Some (w, h) \<Rightarrow> Some (formattedResolution h)
                     | None \<Rightarrow>
                    (case anyResolution v of
                       Some (w, h) \<Rightarrow> Some (formattedResolution h)
                     | None \<Rightarrow>
                    (case streamInfBandwidth v of
                       Some bandwidth \<Rightarrow>
                         if bandwidth > 5000000 then Some ''1080p''
                         else if bandwidth > 2500000 then Some ''720p''
                         else if bandwidth > 1000000 then Some ''480p''
                         else Some ''360p''
                     | None \<Rightarrow>
                         (case segmentFiles v of
                            [] \<Rightarrow> None
                          | f # fs \<Rightarrow>
                              let n = min 3 (length (f # fs));
                                  avgSize = (of_nat (sum_list (map f_size (take n (f # fs))))
                                               / of_nat n :: rat)
                              in if avgSize > 2000000 then Some ''1080p''
                                 else if avgSize > 1000000 then Some ''720p''
                                 else if avgSize > 500000 then Some ''480p''
                                 else Some ''360p'')))))))"

text \<open>
  Each failed check of \<open>checkStreamSegmentHealth\<close> records an error, sets
  \<open>healthCheckStatus\<close> and sets the health to poor (\<open>poorCheck\<close>); the passed check sets
  Healthy and good, and looks for the resolution if none is known (\<open>healthyCheck\<close>).
\<close>

definition setDiagnostics ::
  "stream_id \<Rightarrow> (diagnostics_rec \<Rightarrow> diagnostics_rec) \<Rightarrow> manager \<Rightarrow> manager" where
  "setDiagnostics i f s = modifyStream i (\<lambda>st. st\<lparr>diagnostics := f (diagnostics st)\<rparr>) s"

definition poorCheck ::
  "stream_id \<Rightarrow> errorType \<Rightarrow> string \<Rightarrow> string \<Rightarrow> nat \<Rightarrow> manager \<Rightarrow> manager" where
  "poorCheck i t msg label now s =
     updateStreamHealth i (Some Poor) now
       (setDiagnostics i (\<lambda>d. d\<lparr>healthCheckStatus := Some label\<rparr>)
          (recordError i t msg now s))"

definition resolutionUnset :: "stream_rec \<Rightarrow> bool" where
  "resolutionUnset st =
     (case streamInfo st of None \<Rightarrow> True
      | Some si \<Rightarrow> (case resolution si of None \<Rightarrow> True | Some r \<Rightarrow> r = []))"

definition healthyCheck :: "stream_id \<Rightarrow> nat \<Rightarrow> dirView \<Rightarrow> manager \<Rightarrow> manager" where
  "healthyCheck i now v s =
     (let s4 = updateStreamHealth i (Some Good) now
                 (setDiagnostics i (\<lambda>d. d\<lparr>healthCheckStatus := Some ''Healthy''\<rparr>) s)
      in case streams s4 i of None \<Rightarrow> s4
         | Some st4 \<Rightarrow>
             if resolutionUnset st4
             then (case analyzeStreamResolution i v s4 of
                     None \<Rightarrow> s4
                   | Some r \<Rightarrow>
                       if r = [] then s4
                       else modifyStream i
                              (\<lambda>st. st\<lparr>streamInfo := Some \<lparr>resolution = Some r\<rparr>\<rparr>) s4)
             else s4)"

text \<open>
  \<open>checkStreamSegmentHealth\<close>, at time \<open>now\<close>, with the environment \<open>e\<close> of the
  process. The age of the newest segment is in seconds; the limit it is compared with is
  \<open>process.env.MAX_SEGMENT_AGE || 30\<close>, not the manager's field \<open>maxSegmentAge\<close>.
  \<open>ReadThrows\<close> is an exception of the file system inside the \<open>try\<close> block.
\<close>

definition checkStreamSegmentHealth ::
  "stream_id \<Rightarrow> nat \<Rightarrow> env \<Rightarrow> dirView \<Rightarrow> manager \<Rightarrow> manager" where
  "checkStreamSegmentHealth i now e v s =
     (case streams s i of None \<Rightarrow> s
      | Some st \<Rightarrow>
          if status st \<noteq> Running then s
          else
            let s1 = s\<lparr>hlsDirs := insert i (hlsDirs s),
                       streams := (streams s)(i \<mapsto> st
                         \<lparr>hlsPath := (case hlsPath st of None \<Rightarrow> Some (hlsDir @ ''/'' @ i)
                                       | Some p \<Rightarrow> Some p),
                          diagnostics := (diagnostics st)\<lparr>lastHealthCheck := Some now\<rparr>\<rparr>)\<rparr>
            in case playlist v of
                 NoPlaylist \<Rightarrow>
                   poorCheck i Segment ''Playlist file not found'' ''No playlist'' now s1
               | ReadThrows msg \<Rightarrow>
                   poorCheck i System (''Health check error: '' @ msg) ''Check error'' now s1
               | Content content \<Rightarrow>
                   let s2 = setDiagnostics i
                              (\<lambda>d. d\<lparr>segmentCount := Some (count_ts content)\<rparr>) s1
                   in if count_ts content = 0
                      then poorCheck i Segment ''No segments in playlist'' ''No segments'' now s2
                      else
                        case segmentFiles v of
                          [] \<Rightarrow> poorCheck i Segment ''No segment files in directory''
                                  ''No segment files'' now s2
                        | latest # others \<Rightarrow>
                            let segmentAge =
                                  (of_int (int now - int (f_time latest)) / 1000 :: rat);
                                rounded = \<lfloor>segmentAge + 1 / 2\<rfloor>;
                                s3 = setDiagnostics i
                                       (\<lambda>d. d\<lparr>latestSegment := Some (f_name latest),
                                               latestSegmentAge := Some rounded\<rparr>) s2
                            in if segmentAge > of_nat (orDefault (MAX_SEGMENT_AGE e) 30)
                               then poorCheck i Segment
                                      (''Latest segment is too old ('' @ show_int rounded @ ''s)'')
                                      ''Stale segments'' now s3
                               else healthyCheck i now v s3)"

section \<open>Variant selection\<close>

text \<open>
  The HTTP client as a function from the URL requested to what comes back: a response
  with its status code, \<open>Location\<close> header and body, or an error of the request.
  \<open>originOf\<close> is \<open>protocol//host\<close> of a URL, as \<open>new URL(url)\<close> gives it.
\<close>

datatype response = Response nat "string option" string | RequestError string

datatype fetchError = TooManyRedirects | RequestFailed nat | NetworkError string

fun fetchUrl ::
  "(string \<Rightarrow> response) \<Rightarrow> (string \<Rightarrow> string) \<Rightarrow> string \<Rightarrow> nat \<Rightarrow> fetchError + string" where
  "fetchUrl web originOf u maxRedirects =
     (case web u of
        RequestError err \<Rightarrow> Inl (NetworkError err)
      | Response statusCode location body \<Rightarrow>
          if statusCode \<ge> 300 \<and> statusCode < 400 \<and> location \<noteq> None \<and> location \<noteq> Some []
          then (case maxRedirects of
                  0 \<Rightarrow> Inl TooManyRedirects
                | Suc n \<Rightarrow>
                    (case location of
                       None \<Rightarrow> Inl TooManyRedirects
                     | Some loc \<Rightarrow>
                         fetchUrl web originOf
                           (if startsWith ''http'' loc then loc else originOf u @ loc) n))
          else if statusCode \<noteq> 200 then Inl (RequestFailed statusCode)
          else Inr body)"

text \<open>
  \<open>analyzeHlsPlaylist\<close>: fetch the playlist with at most five redirects; on a master
  playlist take the variant of highest bandwidth. The loop over the lines of the document,
  which collects the variants in the order they appear, is the parameter
  \<open>parseVariants\<close>. The result is what the promise settles with: \<open>Inr\<close> the URL to use and
  the variant assigned to \<open>this.selectedVariantInfo\<close>, if any; \<open>Inl\<close> would be a rejection,
  and both handlers of the source return the original URL instead.
\<close>

record variant =
  var_url :: string
  var_resolution :: "(nat \<times> nat) option"
  var_bandwidth :: nat
  var_height :: nat

definition analyzeHlsPlaylist ::
  "(string \<Rightarrow> response) \<Rightarrow> (string \<Rightarrow> string) \<Rightarrow> (string \<Rightarrow> string \<Rightarrow> variant list)
     \<Rightarrow> string \<Rightarrow> fetchError + string \<times> variantInfo option" where
  "analyzeHlsPlaylist web originOf parseVariants u =
     (case fetchUrl web originOf u 5 of
        Inl err \<Rightarrow> Inr (u, None)
      | Inr content \<Rightarrow>
          if includes_str ''#EXT-X-STREAM-INF'' content
          then (case sortDesc var_bandwidth (parseVariants u content) of
                  [] \<Rightarrow> Inr (u, None)
                | selectedVariant # others \<Rightarrow>
                    Inr (var_url selectedVariant,
                         Some \<lparr>v_resolution = var_resolution selectedVariant,
                               v_bandwidth = var_bandwidth selectedVariant,
                               v_height = var_height selectedVariant\<rparr>))
          else Inr (u, None))"

text \<open>
  A URL whose fetch needs at least \<open>n\<close> redirects: the first \<open>n\<close> responses on the way
  from it are redirects (a status from 300 to 399 with a \<open>Location\<close> header).
\<close>

fun redirectChain ::
  "(string \<Rightarrow> response) \<Rightarrow> (string \<Rightarrow> string) \<Rightarrow> string \<Rightarrow> nat \<Rightarrow> bool" where
  "redirectChain web originOf u 0 = True"
| "redirectChain web originOf u (Suc n) =
     (case web u of
        RequestError err \<Rightarrow> False
      | Response statusCode location body \<Rightarrow>
          (case location of
             None \<Rightarrow> False
           | Some loc \<Rightarrow>
               statusCode \<ge> 300 \<and> statusCode < 400 \<and> loc \<noteq> []
               \<and> redirectChain web originOf
                    (if startsWith ''http'' loc then loc else originOf u @ loc) n))"

section \<open>Observations and example states\<close>

definition statusOf :: "stream_id \<Rightarrow> manager \<Rightarrow> stream_status option" where
  "statusOf i s = map_option status (streams s i)"

definition healthOf :: "stream_id \<Rightarrow> manager \<Rightarrow> stream_health option" where
  "healthOf i s = map_option health (streams s i)"

definition healthCheckStatusOf :: "stream_id \<Rightarrow> manager \<Rightarrow> string option" where
  "healthCheckStatusOf i s =
     (case streams s i of None \<Rightarrow> None | Some st \<Rightarrow> healthCheckStatus (diagnostics st))"

definition latestSegmentAgeOf :: "stream_id \<Rightarrow> manager \<Rightarrow> int option" where
  "latestSegmentAgeOf i s =
     (case streams s i of None \<Rightarrow> None | Some st \<Rightarrow> latestSegmentAge (diagnostics st))"

text \<open>
  The part of the process-table invariant that every sequence of events keeps: a running
  stream has a handle in the table, a stopped one has none.
\<close>

definition tableInvariant :: "manager \<Rightarrow> bool" where
  "tableInvariant s =
     (\<forall>i st. streams s i = Some st \<longrightarrow>
        (status st = Running \<longrightarrow> processes s i \<noteq> None) \<and>
        (status st = Stopped \<longrightarrow> processes s i = None))"

text \<open>A manager with the default configuration and one stream, \<open>s1\<close>, just added.\<close>

definition demoUrl :: string where
  "demoUrl = ''http://src/video.m3u8''"

definition demoManager :: manager where
  "demoManager = snd (addStream ''s1'' 0 ''Demo'' demoUrl (constructor noEnv))"

definition atAttempt :: "nat \<Rightarrow> manager" where
  "atAttempt n = demoManager\<lparr>reconnectAttempts := [''s1'' \<mapsto> n]\<rparr>"

definition twelveErrors :: "(errorType \<times> string \<times> nat) list" where
  "twelveErrors =
     [(Ffmpeg, ''a'', 1), (Network, ''b'', 2), (Network, ''c'', 3), (Source, ''d'', 4),
      (Format, ''e'', 5), (Segment, ''f'', 6), (System, ''g'', 7), (Ffmpeg, ''h'', 8),
      (Ffmpeg, ''i'', 9), (Network, ''j'', 10), (Segment, ''k'', 11), (Ffmpeg, ''l'', 12)]"

text \<open>\<open>s1\<close> started and running on process 101.\<close>

definition started :: "event list" where
  "started = [StartStream ''s1'', StartThen ''s1'' demoUrl None (Spawned 101) 10]"

text \<open>\<open>s1\<close> started, then its process exits with code 1.\<close>

definition crashed :: "event list" where
  "crashed = started @ [ProcessExit ''s1'' (Some 1) None 20]"

text \<open>
  \<open>startStream\<close> called twice for \<open>s1\<close> before either playlist analysis has resolved; the
  first continuation spawns process 101, in the second \<open>spawn\<close> throws.
\<close>

definition doubleStart :: "event list" where
  "doubleStart =
     [StartStream ''s1'', StartStream ''s1'',
      StartThen ''s1'' demoUrl None (Spawned 101) 10,
      StartThen ''s1'' demoUrl None (SpawnThrows ''spawn ENOMEM'') 11]"

text \<open>
  After the crash the reconnect timer fires and the source test is under way when
  \<open>startStream\<close> is called for \<open>s1\<close> and spawns process 102. The source test then fails, and
  so does each of the ten that follow, while process 102 runs.
\<close>

definition failedProbe :: "nat \<Rightarrow> event list" where
  "failedProbe t =
     [ReconnectTimer ''s1'' t, SourceTested ''s1'' (ProbeClosed 1 ''busy'') (t + 1)]"

definition startedDuringProbe :: "event list" where
  "startedDuringProbe =
     crashed @
     [ReconnectTimer ''s1'' 5020, StartStream ''s1'',
      StartThen ''s1'' demoUrl None (Spawned 102) 5030,
      SourceTested ''s1'' (ProbeClosed 1 ''busy'') 5040]
     @ concat (map failedProbe
         [10000, 20000, 30000, 40000, 50000, 60000, 70000, 80000, 90000, 100000])"

text \<open>
  A segment directory whose playlist lists one segment, written at time 10000; at time
  30000 it is twenty seconds old.
\<close>

definition agedView :: dirView where
  "agedView = \<lparr>playlist = Content ''segment_000.ts'', streamInfResolution = None,
     anyResolution = None, streamInfBandwidth = None,
     files = [\<lparr>f_name = ''segment_000.ts'', f_time = 10000, f_size = 400000\<rparr>]\<rparr>"

text \<open>A server that answers every request with a redirect to the same playlist URL.\<close>

definition loopUrl :: string where
  "loopUrl = ''http://a/live.m3u8''"

definition loopWeb :: "string \<Rightarrow> response" where
  "loopWeb u = Response 302 (Some loopUrl) []"

definition loopOrigin :: "string \<Rightarrow> string" where
  "loopOrigin u = ''http://a''"

definition noVariants :: "string \<Rightarrow> string \<Rightarrow> variant list" where
  "noVariants u content = []"

section \<open>Properties\<close>

subsection \<open>Resolution labels\<close>

lemma show_nat_small: "n < 10 \<Longrightarrow> show_nat n = [digit n]"
  by (simp add: show_nat.simps [of n])

lemma show_nat_large:
  "10 \<le> n \<Longrightarrow> show_nat n = show_nat (n div 10) @ [digit (n mod 10)]"
  by (simp add: show_nat.simps [of n])

lemma show_nat_320: "show_nat 320 = ''320''"
  by (simp add: show_nat_small show_nat_large digit_def)

lemma show_nat_100: "show_nat 100 = ''100''"
  by (simp add: show_nat_small show_nat_large digit_def)

text \<open>
  C7, as amended. The mapping goes by height thresholds: height 1920 and height 1280 both
  reach the first threshold and are labelled 1080p, height 640 is labelled 480p, and
  heights 320 and 100 lie under every threshold and are labelled by the number itself,
  320p and 100p.
\<close>

theorem formattedResolution_examples:
  "formattedResolution 1920 = ''1080p'' \<and> formattedResolution 1280 = ''1080p'' \<and>
   formattedResolution 640 = ''480p'' \<and> formattedResolution 320 = ''320p'' \<and>
   formattedResolution 100 = ''100p''"
  by (simp add: formattedResolution_def show_nat_320 show_nat_100)

text \<open>
  C7 as the specification lists the labels (720p for height 1280, 360p for height 320):
  these are not what the mapping returns.
\<close>

theorem formattedResolution_spec_examples_fail:
  "\<not> (formattedResolution 1920 = ''1080p'' \<and> formattedResolution 1280 = ''720p'' \<and>
      formattedResolution 640 = ''480p'' \<and> formattedResolution 320 = ''360p'' \<and>
      formattedResolution 100 = ''100p'')"
  by (simp add: formattedResolution_def)

subsection \<open>The example manager\<close>

lemma demo_stream: "\<exists>st. streams demoManager ''s1'' = Some st"
  by (simp add: demoManager_def addStream_def Let_def)

lemma demo_config:
  "maxReconnectAttempts demoManager = 10" "reconnectDelay demoManager = 5000"
  "maxBackoffDelay demoManager = 60000"
  by (simp_all add: demoManager_def addStream_def Let_def constructor_def noEnv_def
      orDefault_def)

lemma demo_tables:
  "processes demoManager = Map.empty" "reconnectTimers demoManager = Map.empty"
  "streams demoManager ''s2'' = None" "recentOf ''s1'' demoManager = []"
  by (simp_all add: demoManager_def addStream_def Let_def constructor_def recentOf_def)

lemma atAttempt_facts:
  "\<exists>st. streams (atAttempt n) ''s1'' = Some st"
  "orDefault (reconnectAttempts (atAttempt n) ''s1'') 0 = n"
  "maxReconnectAttempts (atAttempt n) = 10"
  "reconnectDelay (atAttempt n) = 5000" "maxBackoffDelay (atAttempt n) = 60000"
  "reconnectTimers (atAttempt n) = Map.empty"
  using demo_stream by (simp_all add: atAttempt_def demo_config demo_tables orDefault_def)

subsection \<open>Error history\<close>

lemma pushRecent_eq: "pushRecent e es = drop (length (es @ [e]) - 10) (es @ [e])"
  by (simp add: pushRecent_def Let_def)

lemma lastN_append:
  "drop (length (drop (length xs - n) xs @ ys) - n) (drop (length xs - n) xs @ ys)
     = drop (length (xs @ ys) - n) (xs @ ys)"
  by (cases "length xs \<le> n") (auto simp: add.commute)

lemma errors_analyzeErrorPatterns: "errors (analyzeErrorPatterns st) = errors st"
  by (simp add: analyzeErrorPatterns_def split: option.splits list.splits)

lemma recentOf_recordError:
  "streams s i = Some st \<Longrightarrow>
   recentOf i (recordError i t msg now s) = pushRecent (entryOf (t, msg, now)) (recentOf i s)"
  by (simp add: recentOf_def recordError_def modifyStream_def recordOnStream_def Let_def
      errors_analyzeErrorPatterns entryOf_def split: option.splits)

lemma streams_recordError:
  "streams s i = Some st \<Longrightarrow> \<exists>st'. streams (recordError i t msg now s) i = Some st'"
  by (simp add: recordError_def modifyStream_def)

lemma recentOf_recordErrors:
  "streams s i = Some st \<Longrightarrow>
   recentOf i (recordErrors i xs s)
     = (if xs = [] then recentOf i s
        else drop (length (recentOf i s @ map entryOf xs) - 10)
               (recentOf i s @ map entryOf xs))"
proof (induction xs arbitrary: s st)
  case Nil
  then show ?case by simp
next
  case (Cons x xs)
  obtain t msg now where x: "x = (t, msg, now)" by (cases x) auto
  let ?s1 = "recordError i t msg now s"
  obtain st1 where st1: "streams ?s1 i = Some st1"
    using streams_recordError [OF Cons.prems] by blast
  have r1: "recentOf i ?s1
              = drop (length (recentOf i s @ [entryOf x]) - 10) (recentOf i s @ [entryOf x])"
    using recentOf_recordError [OF Cons.prems] by (simp add: x pushRecent_eq)
  show ?case
  proof (cases "xs = []")
    case True
    then show ?thesis using r1 by (simp add: x)
  next
    case False
    have "recentOf i (recordErrors i (x # xs) s) = recentOf i (recordErrors i xs ?s1)"
      by (simp add: x)
    also have "\<dots> = drop (length (recentOf i ?s1 @ map entryOf xs) - 10)
                        (recentOf i ?s1 @ map entryOf xs)"
      using Cons.IH [OF st1] False by simp
    also have "\<dots> = drop (length ((recentOf i s @ [entryOf x]) @ map entryOf xs) - 10)
                        ((recentOf i s @ [entryOf x]) @ map entryOf xs)"
      unfolding r1 by (rule lastN_append)
    finally show ?thesis by simp
  qed
qed

text \<open>
  C4. For a stream whose \<open>errors.recent\<close> holds at most ten entries (none, for a new
  stream), after any sequence of recorded errors \<open>errors.recent\<close> is the last ten entries
  of the old ones followed by the new ones, in the order they were recorded: it never
  holds more than ten, and what is dropped is the oldest.
\<close>

theorem recordError_recent_last_ten:
  assumes "streams s i = Some st" and "length (recentOf i s) \<le> 10"
  shows "recentOf i (recordErrors i xs s)
           = drop (length (recentOf i s @ map entryOf xs) - 10)
               (recentOf i s @ map entryOf xs)
         \<and> length (recentOf i (recordErrors i xs s)) \<le> 10"
  using assms recentOf_recordErrors [OF assms(1), of xs] by (cases "xs = []") auto

theorem recordError_recent_last_ten_witness:
  "map timestamp (recentOf ''s1'' (recordErrors ''s1'' twelveErrors demoManager))
     = [3, 4, 5, 6, 7, 8, 9, 10, 11, 12]
   \<and> length (recentOf ''s1'' (recordErrors ''s1'' twelveErrors demoManager)) \<le> 10"
proof -
  obtain st where st: "streams demoManager ''s1'' = Some st"
    using demo_stream by blast
  have len: "length (recentOf ''s1'' demoManager) \<le> 10"
    by (simp add: demo_tables)
  show ?thesis
    using recordError_recent_last_ten [OF st len, of twelveErrors]
    by (simp add: demo_tables twelveErrors_def entryOf_def)
qed

subsection \<open>Doubles\<close>

lemma roundHalfEven_of_int [simp]: "roundHalfEven (of_int z) = z"
  by (simp add: roundHalfEven_def)

lemma roundHalfEven_ge_floor: "\<lfloor>q\<rfloor> \<le> roundHalfEven q"
  by (simp add: roundHalfEven_def Let_def)

lemma roundHalfEven_le_floor_Suc: "roundHalfEven q \<le> \<lfloor>q\<rfloor> + 1"
  by (simp add: roundHalfEven_def Let_def)

lemma roundHalfEven_ge: "of_int z \<le> q \<Longrightarrow> z \<le> roundHalfEven q"
proof -
  assume "of_int z \<le> q"
  then have "z \<le> \<lfloor>q\<rfloor>" by (simp add: le_floor_iff)
  then show ?thesis using roundHalfEven_ge_floor [of q] by linarith
qed

lemma roundHalfEven_le: "q \<le> of_int z \<Longrightarrow> roundHalfEven q \<le> z"
proof (cases "\<lfloor>q\<rfloor> < z")
  case True
  then show ?thesis using roundHalfEven_le_floor_Suc [of q] by linarith
next
  case False
  assume qz: "q \<le> of_int z"
  then have "\<lfloor>q\<rfloor> \<le> z" by (metis floor_mono floor_of_int)
  with False have fz: "\<lfloor>q\<rfloor> = z" by simp
  have "of_int \<lfloor>q\<rfloor> \<le> q" by simp
  with fz qz have "q = of_int z" by simp
  then show ?thesis by simp
qed

lemma exponent_bounds:
  assumes "1 \<le> (x::rat)"
  shows "2 ^ (floorlog 2 (nat \<lfloor>x\<rfloor>) - 1) \<le> x" and "x < 2 ^ floorlog 2 (nat \<lfloor>x\<rfloor>)"
proof -
  let ?I = "nat \<lfloor>x\<rfloor>"
  let ?L = "floorlog 2 ?I"
  have f1: "1 \<le> \<lfloor>x\<rfloor>" using assms by (simp add: le_floor_iff)
  then have pos: "0 < ?I" by simp
  from floorlog_bounds [OF pos, of 2] have
    lo: "2 ^ (?L - 1) \<le> ?I" and hi: "?I < 2 ^ ?L" by simp_all
  have Ieq: "(of_nat ?I :: rat) = of_int \<lfloor>x\<rfloor>" using f1 by simp
  have Ix: "(of_nat ?I :: rat) \<le> x" unfolding Ieq by simp
  have "(of_nat (2 ^ (?L - 1)) :: rat) \<le> of_nat ?I" using lo by (simp only: of_nat_le_iff)
  then have "(2::rat) ^ (?L - 1) \<le> of_nat ?I" by simp
  then show "2 ^ (?L - 1) \<le> x" using Ix by (rule order_trans)
  have "(of_nat (Suc ?I) :: rat) \<le> of_nat (2 ^ ?L)" using hi by (simp only: of_nat_le_iff Suc_le_eq)
  then have up: "of_nat ?I + 1 \<le> (2::rat) ^ ?L" by simp
  have "x < of_int \<lfloor>x\<rfloor> + 1" by linarith
  then show "x < 2 ^ ?L" using up Ieq by linarith
qed

lemma exponent_small:
  assumes "1 \<le> (x::rat)" and "x < 2 ^ 53"
  shows "floorlog 2 (nat \<lfloor>x\<rfloor>) - 1 \<le> 52"
proof (rule ccontr)
  assume "\<not> floorlog 2 (nat \<lfloor>x\<rfloor>) - 1 \<le> 52"
  then have "53 \<le> floorlog 2 (nat \<lfloor>x\<rfloor>) - 1" by simp
  then have "(2::rat) ^ 53 \<le> 2 ^ (floorlog 2 (nat \<lfloor>x\<rfloor>) - 1)"
    by (intro power_increasing) simp_all
  with exponent_bounds(1) [OF assms(1)] assms(2) show False by linarith
qed

text \<open>A dyadic rational with a numerator below 2^53 is a double.\<close>

lemma toDouble_exact:
  assumes "m < 2 ^ 53" and "1 \<le> (of_nat m / 2 ^ k :: rat)"
  shows "toDouble (of_nat m / 2 ^ k) = of_nat m / 2 ^ k"
proof -
  let ?x = "of_nat m / 2 ^ k :: rat"
  let ?e = "floorlog 2 (nat \<lfloor>?x\<rfloor>) - 1"
  have "?x \<le> of_nat m" by (simp add: divide_le_eq mult_le_cancel_left1)
  also have "\<dots> < 2 ^ 53" using assms(1) by (metis of_nat_less_iff of_nat_numeral of_nat_power)
  finally have x53: "?x < 2 ^ 53" .
  have e52: "?e \<le> 52" using exponent_small [OF assms(2) x53] .
  have "(2::rat) ^ ?e \<le> ?x" using exponent_bounds(1) [OF assms(2)] .
  then have "(2::rat) ^ ?e * 2 ^ k \<le> of_nat m" by (simp add: pos_le_divide_eq)
  then have lt: "(2::rat) ^ (?e + k) < 2 ^ 53"
    using \<open>of_nat m < (2::rat) ^ 53\<close> by (simp only: power_add)
  have ek: "?e + k < 53"
  proof (rule ccontr)
    assume "\<not> ?e + k < 53"
    then have "53 \<le> ?e + k" by simp
    then have "(2::rat) ^ 53 \<le> 2 ^ (?e + k)" by (intro power_increasing) simp_all
    with lt show False by linarith
  qed
  define d where "d = 52 - ?e - k"
  have d: "52 - ?e = k + d" using ek by (simp add: d_def)
  have "?x * 2 ^ (52 - ?e) = of_int (int (m * 2 ^ d))"
    unfolding d by (simp add: power_add)
  then have "roundHalfEven (?x * 2 ^ (52 - ?e)) = int (m * 2 ^ d)"
    by (simp only: roundHalfEven_of_int)
  then have "of_int (roundHalfEven (?x * 2 ^ (52 - ?e))) / 2 ^ (52 - ?e) = ?x"
    unfolding d by (simp add: power_add)
  then show ?thesis using assms(2) e52 by (simp add: toDouble_def Let_def)
qed


lemma of_nat_lt_2_53: "k < 2 ^ 53 \<Longrightarrow> (of_nat k :: rat) < 2 ^ 53"
  by (metis of_nat_less_iff of_nat_numeral of_nat_power)

text \<open>Rounding is monotone around the doubles that are natural numbers.\<close>

lemma toDouble_le:
  assumes "k < 2 ^ 53" and "x \<le> of_nat k"
  shows "toDouble x \<le> of_nat k"
proof (cases "x < 1")
  case True
  then show ?thesis using assms(2) by (simp add: toDouble_def)
next
  case False
  then have x1: "1 \<le> x" by simp
  let ?e = "floorlog 2 (nat \<lfloor>x\<rfloor>) - 1"
  have "x < 2 ^ 53" using assms(2) of_nat_lt_2_53 [OF assms(1)] by linarith
  then have e52: "?e \<le> 52" using exponent_small [OF x1] by simp
  have "x * 2 ^ (52 - ?e) \<le> of_nat k * 2 ^ (52 - ?e)"
    using assms(2) by (simp add: mult_right_mono)
  also have "\<dots> = of_int (int (k * 2 ^ (52 - ?e)))" by simp
  finally have "roundHalfEven (x * 2 ^ (52 - ?e)) \<le> int (k * 2 ^ (52 - ?e))"
    by (rule roundHalfEven_le)
  then have "(of_int (roundHalfEven (x * 2 ^ (52 - ?e))) :: rat) \<le> of_int (int (k * 2 ^ (52 - ?e)))"
    by (simp only: of_int_le_iff)
  then have "(of_int (roundHalfEven (x * 2 ^ (52 - ?e))) :: rat) / 2 ^ (52 - ?e) \<le> of_nat k"
    by (simp add: pos_divide_le_eq)
  then show ?thesis using x1 e52 by (simp add: toDouble_def Let_def)
qed

lemma toDouble_ge:
  assumes "k < 2 ^ 53" and "of_nat k \<le> x"
  shows "of_nat k \<le> toDouble x"
proof (cases "x < 1")
  case True
  then show ?thesis using assms(2) by (simp add: toDouble_def)
next
  case False
  then have x1: "1 \<le> x" by simp
  let ?e = "floorlog 2 (nat \<lfloor>x\<rfloor>) - 1"
  show ?thesis
  proof (cases "?e \<le> 52")
    case True
    have "(of_int (int (k * 2 ^ (52 - ?e))) :: rat) = of_nat k * 2 ^ (52 - ?e)" by simp
    also have "\<dots> \<le> x * 2 ^ (52 - ?e)" using assms(2) by (simp add: mult_right_mono)
    finally have "int (k * 2 ^ (52 - ?e)) \<le> roundHalfEven (x * 2 ^ (52 - ?e))"
      by (rule roundHalfEven_ge)
    then have "(of_int (int (k * 2 ^ (52 - ?e))) :: rat) \<le> of_int (roundHalfEven (x * 2 ^ (52 - ?e)))"
      by (simp only: of_int_le_iff)
    then have "of_nat k \<le> (of_int (roundHalfEven (x * 2 ^ (52 - ?e))) :: rat) / 2 ^ (52 - ?e)"
      by (simp add: pos_le_divide_eq)
    then show ?thesis using x1 True by (simp add: toDouble_def Let_def)
  next
    case False
    then have e53: "53 \<le> ?e" by simp
    have "(2::rat) ^ ?e \<le> x" using exponent_bounds(1) [OF x1] .
    moreover have "(2::rat) ^ ?e = 2 ^ 52 * 2 ^ (?e - 52)"
    proof -
      have "?e = 52 + (?e - 52)" using e53 by simp
      then show ?thesis by (metis power_add)
    qed
    ultimately have "(of_int (2 ^ 52) :: rat) \<le> x / 2 ^ (?e - 52)"
      by (simp add: pos_le_divide_eq)
    then have "2 ^ 52 \<le> roundHalfEven (x / 2 ^ (?e - 52))" by (rule roundHalfEven_ge)
    then have "(of_int (2 ^ 52) :: rat) \<le> of_int (roundHalfEven (x / 2 ^ (?e - 52)))"
      by (simp only: of_int_le_iff)
    then have "(2::rat) ^ 52 * 2 ^ (?e - 52) \<le> of_int (roundHalfEven (x / 2 ^ (?e - 52))) * 2 ^ (?e - 52)"
      by (simp add: mult_right_mono)
    moreover have "(2::rat) ^ 53 \<le> 2 ^ 52 * 2 ^ (?e - 52)"
    proof -
      have "(2::rat) ^ 1 \<le> 2 ^ (?e - 52)" using e53 by (intro power_increasing) simp_all
      then show ?thesis by simp
    qed
    ultimately have "(2::rat) ^ 53 \<le> of_int (roundHalfEven (x / 2 ^ (?e - 52))) * 2 ^ (?e - 52)"
      by linarith
    then have "(of_nat k :: rat) \<le> of_int (roundHalfEven (x / 2 ^ (?e - 52))) * 2 ^ (?e - 52)"
      using of_nat_lt_2_53 [OF assms(1)] by linarith
    then show ?thesis using x1 False by (simp add: toDouble_def Let_def)
  qed
qed

lemma toDouble_of_nat: "m < 2 ^ 53 \<Longrightarrow> toDouble (of_nat m) = of_nat m"
proof (cases "m = 0")
  case True
  then show ?thesis by (simp add: toDouble_def)
next
  case False
  assume "m < 2 ^ 53"
  then show ?thesis using toDouble_exact [of m 0] False by simp
qed

lemma pow15_dyadic: "((3::rat) / 2) ^ n = of_nat (3 ^ n) / 2 ^ n"
  by (simp add: power_divide)

lemma pow15_ge_1: "1 \<le> ((3::rat) / 2) ^ n"
  by (rule one_le_power) simp

lemma toDouble_pow15: "3 ^ n < (2::nat) ^ 53 \<Longrightarrow> toDouble ((3 / 2) ^ n) = (3 / 2) ^ n"
  using toDouble_exact [of "3 ^ n" n] pow15_ge_1 [of n] by (simp only: pow15_dyadic)

lemma toDouble_scaled:
  assumes "1 \<le> b" and "b * 3 ^ n < (2::nat) ^ 53"
  shows "toDouble (of_nat b * (3 / 2) ^ n) = of_nat b * (3 / 2) ^ n"
proof -
  have eq: "of_nat b * ((3::rat) / 2) ^ n = of_nat (b * 3 ^ n) / 2 ^ n"
    by (simp add: power_divide)
  have "(1::rat) \<le> of_nat b * 1" using assms(1) by simp
  also have "\<dots> \<le> of_nat b * (3 / 2) ^ n"
    by (intro mult_left_mono pow15_ge_1) simp
  finally have "1 \<le> (of_nat (b * 3 ^ n) / 2 ^ n :: rat)" by (simp only: eq)
  then show ?thesis using toDouble_exact [OF assms(2)] by (simp only: eq)
qed

subsection \<open>Reconnection\<close>

lemma backoffDelay_exact:
  assumes "1 \<le> b" and "b * 3 ^ n < (2::nat) ^ 53"
  shows "backoffDelay b cap n = Some (min (of_nat b * (3 / 2) ^ n) (of_nat cap))"
proof -
  have "(3::nat) ^ n \<le> b * 3 ^ n" using assms(1) by simp
  then have "(3::nat) ^ n < 2 ^ 53" using assms(2) by (rule le_less_trans)
  then have p: "toDouble ((3 / 2) ^ n) = (3 / 2) ^ n" by (rule toDouble_pow15)
  have b0: "b \<noteq> 0" using assms(1) by simp
  show ?thesis
    by (simp only: backoffDelay_def Let_def p toDouble_scaled [OF assms] b0 simp_thms if_False)
qed

lemma isoTime_valid:
  assumes "of_nat now + delay \<le> 8640000000000000"
  shows "isoTime now delay = Some (nat \<lfloor>toDouble (of_nat now + delay)\<rfloor>)"
proof -
  have "(8640000000000000::nat) < 2 ^ 53" by simp
  moreover have "of_nat now + delay \<le> of_nat (8640000000000000::nat)" using assms by simp
  ultimately have "toDouble (of_nat now + delay) \<le> of_nat (8640000000000000::nat)"
    by (rule toDouble_le)
  then show ?thesis by (simp add: isoTime_def Let_def)
qed


lemma backoff_below_cap: "n < 7 \<Longrightarrow> (5000::rat) * (3 / 2) ^ n \<le> 60000"
proof -
  assume "n < 7"
  then have "((3::rat) / 2) ^ n \<le> (3 / 2) ^ 6"
    by (intro power_increasing) auto
  then show ?thesis by (simp add: power_numeral_reduce)
qed

lemma backoff_above_cap: "7 \<le> n \<Longrightarrow> (60000::rat) \<le> 5000 * (3 / 2) ^ n"
proof -
  assume "7 \<le> n"
  then have "((3::rat) / 2) ^ 7 \<le> (3 / 2) ^ n"
    by (intro power_increasing) auto
  then show ?thesis by (simp add: power_numeral_reduce)
qed

lemma backoffDelay_default:
  "backoffDelay 5000 60000 n = Some (if n < 7 then 5000 * (3 / 2) ^ n else 60000)"
proof (cases "n < 7")
  case True
  then have "(3::nat) ^ n \<le> 3 ^ 6" by (intro power_increasing) simp_all
  then have "5000 * (3::nat) ^ n < 2 ^ 53" by simp
  then have "backoffDelay 5000 60000 n
               = Some (min (of_nat 5000 * (3 / 2) ^ n) (of_nat 60000))"
    by (intro backoffDelay_exact) simp
  then show ?thesis using True backoff_below_cap [of n] by (simp add: min_def)
next
  case False
  then have "((3::rat) / 2) ^ 7 \<le> (3 / 2) ^ n" by (intro power_increasing) auto
  then have "of_nat 12 \<le> ((3::rat) / 2) ^ n" by (simp add: power_numeral_reduce)
  then have "of_nat 12 \<le> toDouble ((3 / 2) ^ n)" by (intro toDouble_ge) simp
  then have "of_nat 60000 \<le> of_nat 5000 * toDouble ((3 / 2) ^ n)" by simp
  then have "of_nat 60000 \<le> toDouble (of_nat 5000 * toDouble ((3 / 2) ^ n))"
    by (intro toDouble_ge) simp
  then have "min (toDouble (of_nat 5000 * toDouble ((3 / 2) ^ n))) (of_nat 60000)
               = (60000::rat)"
    by (simp add: min_def)
  then show ?thesis using False by (simp add: backoffDelay_def Let_def)
qed

lemma handleReconnect_schedules:
  assumes "streams s i = Some st" and "orDefault (reconnectAttempts s i) 0 = n"
    and "n < maxReconnectAttempts s"
    and "backoffDelay (reconnectDelay s) (maxBackoffDelay s) n = Some d"
    and "of_nat now + d \<le> 8640000000000000"
  shows "reconnectTimers (handleReconnect i now s) i = Some (timeoutDelay d)"
  using assms by (simp add: handleReconnect_def Let_def isoTime_valid)

text \<open>
  C2. When \<open>handleReconnect\<close> runs for a stream at attempt \<open>n\<close> below the maximum, at a
  time from which the cap does not lead out of the range of \<open>Date\<close>, the timer it
  schedules has the delay \<open>min (reconnectDelay * 1.5^n) maxBackoffDelay\<close>, provided the
  doubles of the source compute that number exactly (a base delay of at least 1 ms whose
  product with \<open>3^n\<close> is below \<open>2^53\<close>) and the cap is a delay that \<open>setTimeout\<close> takes
  as it is (from 1 to \<open>2^31 - 1\<close> ms). With a base of 5000 ms and a cap of 60000 ms the
  delay is \<open>5000 * 1.5^n\<close> for the attempts 0 to 6 (5000, 7500, 11250, ...) and 60000
  for every attempt from 7 on.
\<close>

theorem handleReconnect_backoff_delay:
  assumes "streams s i = Some st" and "orDefault (reconnectAttempts s i) 0 = n"
    and "n < maxReconnectAttempts s"
    and "now + maxBackoffDelay s \<le> 8640000000000000"
  shows "(1 \<le> reconnectDelay s \<and> reconnectDelay s * 3 ^ n < 2 ^ 53
            \<and> 1 \<le> maxBackoffDelay s \<and> maxBackoffDelay s \<le> 2147483647 \<longrightarrow>
          reconnectTimers (handleReconnect i now s) i
            = Some (min (of_nat (reconnectDelay s) * (3 / 2) ^ n)
                        (of_nat (maxBackoffDelay s))))
         \<and> (reconnectDelay s = 5000 \<and> maxBackoffDelay s = 60000 \<longrightarrow>
              reconnectTimers (handleReconnect i now s) i
                = Some (if n < 7 then 5000 * (3 / 2) ^ n else 60000))"
proof (intro conjI impI)
  assume h: "1 \<le> reconnectDelay s \<and> reconnectDelay s * 3 ^ n < 2 ^ 53
             \<and> 1 \<le> maxBackoffDelay s \<and> maxBackoffDelay s \<le> 2147483647"
  let ?d = "min (of_nat (reconnectDelay s) * (3 / 2) ^ n) (of_nat (maxBackoffDelay s)) :: rat"
  have d: "backoffDelay (reconnectDelay s) (maxBackoffDelay s) n = Some ?d"
    using h by (intro backoffDelay_exact) simp_all
  have "(1::rat) \<le> of_nat (reconnectDelay s) * 1" using h by simp
  also have "\<dots> \<le> of_nat (reconnectDelay s) * (3 / 2) ^ n"
    by (intro mult_left_mono pow15_ge_1) simp
  finally have lo: "1 \<le> ?d" using h by simp
  have cap: "?d \<le> of_nat (maxBackoffDelay s)" by simp
  have "(of_nat (maxBackoffDelay s) :: rat) \<le> of_nat 2147483647"
    using h by (simp only: of_nat_le_iff)
  then have hi: "?d \<le> 2147483647" using cap by simp
  have "(of_nat (now + maxBackoffDelay s) :: rat) \<le> of_nat 8640000000000000"
    using assms(4) by (simp only: of_nat_le_iff)
  then have "of_nat now + ?d \<le> 8640000000000000" using cap by simp
  from handleReconnect_schedules [OF assms(1-3) d this]
  show "reconnectTimers (handleReconnect i now s) i = Some ?d"
    using lo hi by (simp add: timeoutDelay_def)
next
  assume h: "reconnectDelay s = 5000 \<and> maxBackoffDelay s = 60000"
  let ?d = "if n < 7 then 5000 * (3 / 2) ^ n else 60000 :: rat"
  have d: "backoffDelay (reconnectDelay s) (maxBackoffDelay s) n = Some ?d"
    using h backoffDelay_default [of n] by simp
  have "(5000::rat) * 1 \<le> 5000 * (3 / 2) ^ n"
    by (intro mult_left_mono pow15_ge_1) simp
  then have lo: "5000 \<le> ?d" by simp
  have hi: "?d \<le> 60000" using backoff_below_cap [of n] by simp
  have "(of_nat (now + maxBackoffDelay s) :: rat) \<le> of_nat 8640000000000000"
    using assms(4) by (simp only: of_nat_le_iff)
  then have "of_nat now + ?d \<le> 8640000000000000" using hi h by simp
  from handleReconnect_schedules [OF assms(1-3) d this]
  show "reconnectTimers (handleReconnect i now s) i = Some ?d"
    using lo hi by (simp add: timeoutDelay_def)
qed

theorem handleReconnect_backoff_delay_witness:
  "reconnectTimers (handleReconnect ''s1'' 0 (atAttempt 0)) ''s1'' = Some 5000
   \<and> reconnectTimers (handleReconnect ''s1'' 0 (atAttempt 1)) ''s1'' = Some 7500
   \<and> reconnectTimers (handleReconnect ''s1'' 0 (atAttempt 2)) ''s1'' = Some 11250
   \<and> reconnectTimers (handleReconnect ''s1'' 0 (atAttempt 6)) ''s1'' = Some (455625 / 8)
   \<and> reconnectTimers (handleReconnect ''s1'' 0 (atAttempt 7)) ''s1'' = Some 60000
   \<and> reconnectTimers (handleReconnect ''s1'' 0 (atAttempt 9)) ''s1'' = Some 60000"
proof -
  have inst: "reconnectTimers (handleReconnect ''s1'' 0 (atAttempt n)) ''s1''
                = Some (if n < 7 then 5000 * (3 / 2) ^ n else 60000)" if "n < 10" for n
  proof -
    obtain st where st: "streams (atAttempt n) ''s1'' = Some st"
      using atAttempt_facts(1) by blast
    have lt: "n < maxReconnectAttempts (atAttempt n)"
      using that by (simp add: atAttempt_facts)
    have range: "0 + maxBackoffDelay (atAttempt n) \<le> 8640000000000000"
      by (simp add: atAttempt_facts)
    show ?thesis
      using handleReconnect_backoff_delay [OF st atAttempt_facts(2) lt range, THEN conjunct2]
      by (simp add: atAttempt_facts)
  qed
  show ?thesis
    using inst [of 0] inst [of 1] inst [of 2] inst [of 6] inst [of 7] inst [of 9]
    by (simp add: power_numeral_reduce)
qed

text \<open>
  C3. When \<open>handleReconnect\<close> runs for a stream whose attempt counter has reached the
  configured maximum, the stream's status becomes error, its health failed and its
  \<open>healthCheckStatus\<close> \<open>max_reconnect_exceeded\<close>; no timer is scheduled (the timer table
  is left as it was) and the counter is not incremented.
\<close>

theorem handleReconnect_gives_up:
  assumes "streams s i = Some st" and "maxReconnectAttempts s \<le> orDefault (reconnectAttempts s i) 0"
  shows "statusOf i (handleReconnect i now s) = Some Error
         \<and> healthOf i (handleReconnect i now s) = Some Failed
         \<and> healthCheckStatusOf i (handleReconnect i now s) = Some ''max_reconnect_exceeded''
         \<and> reconnectTimers (handleReconnect i now s) = reconnectTimers s
         \<and> reconnectAttempts (handleReconnect i now s) i
             = Some (orDefault (reconnectAttempts s i) 0)"
  using assms
  by (simp add: handleReconnect_def Let_def statusOf_def healthOf_def healthCheckStatusOf_def)

theorem handleReconnect_gives_up_witness:
  "statusOf ''s1'' (handleReconnect ''s1'' 0 (atAttempt 10)) = Some Error
   \<and> healthOf ''s1'' (handleReconnect ''s1'' 0 (atAttempt 10)) = Some Failed
   \<and> healthCheckStatusOf ''s1'' (handleReconnect ''s1'' 0 (atAttempt 10))
       = Some ''max_reconnect_exceeded''
   \<and> reconnectTimers (handleReconnect ''s1'' 0 (atAttempt 10)) ''s1'' = None"
proof -
  obtain st where st: "streams (atAttempt 10) ''s1'' = Some st"
    using atAttempt_facts(1) by blast
  have ge: "maxReconnectAttempts (atAttempt 10) \<le> orDefault (reconnectAttempts (atAttempt 10) ''s1'') 0"
    by (simp add: atAttempt_facts)
  show ?thesis
    using handleReconnect_gives_up [OF st ge, of 0] by (simp add: atAttempt_facts)
qed

subsection \<open>Adding a stream\<close>



subsection \<open>Stopping twice\<close>

lemma streams_modifyStream:
  "streams (modifyStream i f s) j = (if j = i then map_option f (streams s i) else streams s j)"
  by (simp add: modifyStream_def split: option.splits)

lemma processes_modifyStream [simp]: "processes (modifyStream i f s) = processes s"
  by (simp add: modifyStream_def split: option.splits)

lemma stopStream_when_stopped:
  "streams s i = Some st \<Longrightarrow> status st = Stopped \<Longrightarrow> stopStream i k s = (True, s)"
  by (simp add: stopStream_def)

lemma stopStream_leaves_stopped:
  assumes "streams s i = Some st" and "fst (stopStream i k s)"
  shows "\<exists>st'. streams (snd (stopStream i k s)) i = Some st' \<and> status st' = Stopped"
proof (cases "status st = Stopped")
  case True
  then show ?thesis using assms by (simp add: stopStream_def)
next
  case False
  then show ?thesis using assms
    by (simp add: stopStream_def Let_def streams_modifyStream clearMonitoring_def
        clearSegmentHealthCheck_def clearScreenshotTimer_def split: option.splits if_splits)
qed

lemma stopStream_succeeds: "streams s i = Some st \<Longrightarrow> fst (stopStream i False s)"
  by (simp add: stopStream_def Let_def)

text \<open>
  C5. For an existing stream, \<open>stopStream\<close> returns success when the signal is sent
  without an exception, and whenever a call of \<open>stopStream\<close> has returned success, the
  call that follows it returns success and leaves the whole manager (records, process
  table, timer tables) exactly as it was.
\<close>

theorem stopStream_idempotent:
  assumes "streams s i = Some st"
  shows "fst (stopStream i False s)
         \<and> (fst (stopStream i k1 s) \<longrightarrow>
              stopStream i k2 (snd (stopStream i k1 s)) = (True, snd (stopStream i k1 s)))"
proof (intro conjI impI)
  show "fst (stopStream i False s)" using assms by (rule stopStream_succeeds)
next
  assume ok: "fst (stopStream i k1 s)"
  from stopStream_leaves_stopped [OF assms ok] obtain st' where
    "streams (snd (stopStream i k1 s)) i = Some st'" "status st' = Stopped" by blast
  then show "stopStream i k2 (snd (stopStream i k1 s)) = (True, snd (stopStream i k1 s))"
    by (rule stopStream_when_stopped)
qed

subsection \<open>Status and process table\<close>

lemma status_analyzeErrorPatterns [simp]: "status (analyzeErrorPatterns st) = status st"
  by (simp add: analyzeErrorPatterns_def split: option.splits list.splits)

lemma status_recordOnStream [simp]: "status (recordOnStream t msg now st) = status st"
  by (simp add: recordOnStream_def Let_def)

lemma status_applySelection [simp]: "status (applySelection u v st) = status st"
  by (simp add: applySelection_def Let_def split: option.splits prod.splits)

lemma processes_recordError [simp]: "processes (recordError i t msg now s) = processes s"
  by (simp add: recordError_def)

lemma tableInvariant_alt:
  "tableInvariant s =
     (\<forall>i. (statusOf i s = Some Running \<longrightarrow> processes s i \<noteq> None) \<and>
          (statusOf i s = Some Stopped \<longrightarrow> processes s i = None))"
  by (auto simp: tableInvariant_def statusOf_def)

lemma processes_handleReconnect [simp]: "processes (handleReconnect i now s) = processes s"
  by (simp add: handleReconnect_def Let_def split: option.splits)

lemma statusOf_handleReconnect:
  "statusOf j (handleReconnect i now s) = Some x \<Longrightarrow> x = Error \<or> statusOf j s = Some x"
  by (auto simp: statusOf_def handleReconnect_def Let_def split: option.splits if_splits)

lemma inv_handleReconnect: "tableInvariant s \<Longrightarrow> tableInvariant (handleReconnect i now s)"
  unfolding tableInvariant_alt using statusOf_handleReconnect by fastforce

lemma inv_stopStream: "tableInvariant s \<Longrightarrow> tableInvariant (snd (stopStream i k s))"
  unfolding tableInvariant_alt
  by (auto simp: statusOf_def stopStream_def Let_def streams_modifyStream clearMonitoring_def
      clearSegmentHealthCheck_def clearScreenshotTimer_def split: option.splits if_splits)

lemma inv_modify_restarts:
  "tableInvariant s \<Longrightarrow>
   tableInvariant (modifyStream i (\<lambda>st. st\<lparr>stats := (stats st)\<lparr>restarts := 0\<rparr>\<rparr>) s)"
  unfolding tableInvariant_alt
  by (auto simp: statusOf_def streams_modifyStream split: if_splits)

lemma inv_restartStream: "tableInvariant s \<Longrightarrow> tableInvariant (snd (restartStream i k s))"
  using inv_stopStream [of s i k] inv_modify_restarts [of "snd (stopStream i k s)" i]
  by (auto simp: restartStream_def split: option.splits prod.splits)

lemma inv_startStream: "tableInvariant s \<Longrightarrow> tableInvariant (snd (startStream i s))"
  unfolding tableInvariant_alt
  by (auto simp: statusOf_def startStream_def split: option.splits if_splits)

lemma inv_startStream_then:
  "tableInvariant s \<Longrightarrow> tableInvariant (snd (startStream_then i u v outcome now s))"
  unfolding tableInvariant_alt
  by (cases outcome)
     (auto simp: statusOf_def startStream_then_def Let_def streams_modifyStream
        recordError_def setupMonitoring_def clearMonitoring_def startScreenshotTimer_def
        startSegmentHealthCheck_def split: option.splits if_splits)

lemma inv_processExit: "tableInvariant s \<Longrightarrow> tableInvariant (processExit i c sg now s)"
proof -
  assume inv: "tableInvariant s"
  let ?s3 = "(modifyStream i (\<lambda>st. st\<lparr>status := Error\<rparr>)
               (recordError i Ffmpeg (exitMessage c sg) now s))
             \<lparr>processes := (processes s)(i := None)\<rparr>"
  have "tableInvariant ?s3"
    using inv unfolding tableInvariant_alt
    by (auto simp: statusOf_def streams_modifyStream recordError_def split: if_splits)
  then have "tableInvariant (handleReconnect i now ?s3)" by (rule inv_handleReconnect)
  then show ?thesis using inv
    by (simp add: processExit_def Let_def split: option.splits)
qed

lemma inv_testSourceUrl_begin:
  "tableInvariant s \<Longrightarrow> tableInvariant (testSourceUrl_begin i now s)"
  unfolding tableInvariant_alt
  by (auto simp: statusOf_def testSourceUrl_begin_def streams_modifyStream split: if_splits)

lemma inv_testSourceUrl_end:
  "tableInvariant s \<Longrightarrow> tableInvariant (snd (testSourceUrl_end i outcome s))"
  unfolding tableInvariant_alt
  by (cases outcome)
     (auto simp: statusOf_def testSourceUrl_end_def split: option.splits if_splits)

lemma inv_reconnect_then:
  "tableInvariant s \<Longrightarrow> tableInvariant (reconnect_then i outcome now s)"
  using inv_testSourceUrl_end [of s i outcome]
    inv_startStream [of "snd (testSourceUrl_end i outcome s)" i]
    inv_handleReconnect [of "snd (testSourceUrl_end i outcome s)" i now]
  by (auto simp: reconnect_then_def split: prod.splits option.splits)

lemma inv_recordError: "tableInvariant s \<Longrightarrow> tableInvariant (recordError i t msg now s)"
  unfolding tableInvariant_alt
  by (auto simp: statusOf_def recordError_def streams_modifyStream split: if_splits)

lemma inv_stderrData: "tableInvariant s \<Longrightarrow> tableInvariant (stderrData i output now s)"
  by (simp add: stderrData_def inv_recordError)

lemma inv_uptimeTick: "tableInvariant s \<Longrightarrow> tableInvariant (uptimeTick i s)"
  unfolding tableInvariant_alt
  by (auto simp: statusOf_def uptimeTick_def split: option.splits if_splits)

lemma inv_step: "tableInvariant s \<Longrightarrow> tableInvariant (step e s)"
  by (cases e)
     (simp_all add: inv_startStream inv_startStream_then inv_stopStream inv_restartStream
        inv_processExit inv_testSourceUrl_begin inv_reconnect_then inv_stderrData
        inv_uptimeTick)

text \<open>
  Two of the three implications of C1 hold after every sequence of events, from any state
  in which they hold: a running stream has a handle, a stopped stream has none.
\<close>

lemma tableInvariant_run: "tableInvariant s \<Longrightarrow> tableInvariant (run es s)"
  by (induction es arbitrary: s) (simp_all add: inv_step)

lemma tableInvariant_demo: "tableInvariant demoManager"
  by (simp add: tableInvariant_def demoManager_def addStream_def Let_def constructor_def)

lemmas eval_defs = statusOf_def demoManager_def addStream_def constructor_def noEnv_def
  orDefault_def startStream_def startStream_then_def stopStream_def restartStream_def
  processExit_def testSourceUrl_begin_def testSourceUrl_end_def reconnect_then_def
  handleReconnect_def recordError_def modifyStream_def clearMonitoring_def
  clearSegmentHealthCheck_def clearScreenshotTimer_def setupMonitoring_def
  startScreenshotTimer_def startSegmentHealthCheck_def Let_def demoUrl_def
  recordOnStream_def applySelection_def analyzeErrorPatterns_def pushRecent_def
  bumpCounter_def newDiagnostics_def backoffDelay_default isoTime_valid timeoutDelay_def

lemma started_state:
  "statusOf ''s1'' (run started demoManager) = Some Running"
  "processes (run started demoManager) ''s1'' = Some 101"
  by (simp_all add: started_def eval_defs)


theorem stopStream_idempotent_witness:
  "fst (stopStream ''s1'' False (run started demoManager))
   \<and> stopStream ''s1'' False (snd (stopStream ''s1'' False (run started demoManager)))
       = (True, snd (stopStream ''s1'' False (run started demoManager)))"
proof -
  obtain st where st: "streams (run started demoManager) ''s1'' = Some st"
    using started_state(1) by (auto simp: statusOf_def)
  show ?thesis
    using stopStream_idempotent [OF st, of False False] by blast
qed

text \<open>
  C1 at a failing input. \<open>startStream\<close> only returns early for a running stream, so a
  second call while the first is still waiting for the playlist analysis goes ahead as
  well. The first continuation spawns process 101, registers it and sets the status to
  running; in the second \<open>spawn\<close> throws, and the handler sets the status to error
  without touching the process table. The record then has status error while the handle
  of process 101 is still registered.
\<close>

theorem startStream_twice_error_with_handle:
  "statusOf ''s1'' (run doubleStart demoManager) = Some Error
   \<and> processes (run doubleStart demoManager) ''s1'' = Some 101"
  by (simp add: doubleStart_def eval_defs)

text \<open>
  The same state is reached with no exception at all: a stream started by hand while the
  source test of the reconnect cycle is under way keeps that cycle going, and when the
  attempts are used up \<open>handleReconnect\<close> sets the status to error under the running
  process.
\<close>

lemma reconnect_gives_up_while_running:
  "statusOf ''s1'' (run startedDuringProbe demoManager) = Some Error
   \<and> processes (run startedDuringProbe demoManager) ''s1'' = Some 102"
  by (simp add: startedDuringProbe_def crashed_def started_def failedProbe_def eval_defs
      power_numeral_reduce)

subsection \<open>Deleting a stream\<close>

text \<open>
  What \<open>deleteStream\<close> does for every existing stream: the record is gone, the
  monitoring, screenshot and segment-health timers and the process handle are removed,
  and so are the segment directory and the preview image unless the file system refuses.
\<close>

lemma deleteStream_effects:
  assumes "streams s i = Some st"
  shows "fst (deleteStream i k rmFails unlinkFails s)
     \<and> getStream i (snd (deleteStream i k rmFails unlinkFails s)) = None
     \<and> monitors (snd (deleteStream i k rmFails unlinkFails s)) i = None
     \<and> screenshotTimers (snd (deleteStream i k rmFails unlinkFails s)) i = None
     \<and> segmentHealthChecks (snd (deleteStream i k rmFails unlinkFails s)) i = None
     \<and> processes (snd (deleteStream i k rmFails unlinkFails s)) i = None
     \<and> (rmFails \<or> i \<notin> hlsDirs (snd (deleteStream i k rmFails unlinkFails s)))
     \<and> (unlinkFails \<or> i \<notin> screenshotFiles (snd (deleteStream i k rmFails unlinkFails s)))"
  using assms
  by (simp add: deleteStream_def Let_def getStream_def clearMonitoring_def
      clearSegmentHealthCheck_def clearScreenshotTimer_def)

text \<open>The reconnect timer is cancelled when the stream was running, through \<open>stopStream\<close>.\<close>

lemma deleteStream_running_clears_reconnect:
  assumes "streams s i = Some st" and "status st = Running"
  shows "reconnectTimers (snd (deleteStream i False rmFails unlinkFails s)) i = None"
  using assms
  by (simp add: deleteStream_def stopStream_def Let_def clearMonitoring_def
      clearSegmentHealthCheck_def clearScreenshotTimer_def modifyStream_def
      split: option.splits)

text \<open>
  C9 at a failing input. After its process has exited, stream \<open>s1\<close> has status error and
  a reconnect timer of 5000 ms pending. \<open>deleteStream\<close> calls \<open>stopStream\<close> only for a
  running stream and clears the three other timers itself: it returns success, the
  record is gone, and the reconnect timer is still in \<open>reconnectTimers\<close>, not cancelled.
\<close>

theorem deleteStream_keeps_reconnect_timer:
  "statusOf ''s1'' (run crashed demoManager) = Some Error
   \<and> reconnectTimers (run crashed demoManager) ''s1'' = Some 5000
   \<and> fst (deleteStream ''s1'' False False False (run crashed demoManager))
   \<and> getStream ''s1'' (snd (deleteStream ''s1'' False False False (run crashed demoManager)))
       = None
   \<and> reconnectTimers (snd (deleteStream ''s1'' False False False (run crashed demoManager)))
         ''s1'' = Some 5000"
  by (simp add: crashed_def started_def eval_defs deleteStream_def getStream_def)

subsection \<open>Segment health\<close>

lemmas check_defs = checkStreamSegmentHealth_def healthyCheck_def poorCheck_def
  setDiagnostics_def updateStreamHealth_def segmentFiles_def sortDesc_def endsWith_def
  resolutionUnset_def analyzeStreamResolution_def hlsDir_def

lemma poorCheck_result:
  "streams s i = Some st \<Longrightarrow>
   healthOf i (poorCheck i t msg label now s) = Some Poor
   \<and> healthCheckStatusOf i (poorCheck i t msg label now s) = Some label"
  by (simp add: poorCheck_def updateStreamHealth_def setDiagnostics_def recordError_def
      streams_modifyStream healthOf_def healthCheckStatusOf_def)

text \<open>
  The classification itself is as the specification says: a newest segment older than
  the limit the check uses gives poor health and \<open>Stale segments\<close>. The limit is
  \<open>MAX_SEGMENT_AGE\<close> seconds, 30 when the variable is unset.
\<close>

lemma checkStreamSegmentHealth_stale:
  assumes "streams s i = Some st" and "status st = Running"
    and "playlist v = Content content" and "count_ts content \<noteq> 0"
    and "segmentFiles v = latest # others"
    and "(of_int (int now - int (f_time latest)) / 1000 :: rat)
           > of_nat (orDefault (MAX_SEGMENT_AGE e) 30)"
  shows "healthOf i (checkStreamSegmentHealth i now e v s) = Some Poor
         \<and> healthCheckStatusOf i (checkStreamSegmentHealth i now e v s)
             = Some ''Stale segments''"
proof -
  let ?age = "(of_int (int now - int (f_time latest)) / 1000 :: rat)"
  let ?s3 = "setDiagnostics i
     (\<lambda>d. d\<lparr>latestSegment := Some (f_name latest),
             latestSegmentAge := Some \<lfloor>?age + 1 / 2\<rfloor>\<rparr>)
     (setDiagnostics i (\<lambda>d. d\<lparr>segmentCount := Some (count_ts content)\<rparr>)
        (s\<lparr>hlsDirs := insert i (hlsDirs s),
            streams := (streams s)(i \<mapsto> st
              \<lparr>hlsPath := (case hlsPath st of None \<Rightarrow> Some (hlsDir @ ''/'' @ i)
                            | Some p \<Rightarrow> Some p),
               diagnostics := (diagnostics st)\<lparr>lastHealthCheck := Some now\<rparr>\<rparr>)\<rparr>))"
  have ex: "\<exists>st3. streams ?s3 i = Some st3"
    by (simp add: setDiagnostics_def streams_modifyStream)
  have "checkStreamSegmentHealth i now e v s
          = poorCheck i Segment
              (''Latest segment is too old ('' @ show_int \<lfloor>?age + 1 / 2\<rfloor> @ ''s)'')
              ''Stale segments'' now ?s3"
    using assms by (simp add: checkStreamSegmentHealth_def Let_def)
  then show ?thesis using ex poorCheck_result by auto
qed

lemma floor_41_2: "\<lfloor>(41::rat) / 2\<rfloor> = 20"
  by (rule floor_unique) simp_all

text \<open>
  C6 at a failing input. With no environment variable set the constructor computes
  \<open>maxSegmentAge\<close> as three times the segment time, 12000 ms, but the health check does
  not read that field. For the running stream \<open>s1\<close> whose newest segment is twenty
  seconds old, older than three segment times, the check reports good health and
  \<open>Healthy\<close>.
\<close>

theorem checkStreamSegmentHealth_default_limit:
  "maxSegmentAge (constructor noEnv) = 3 * hlsSegmentTime (constructor noEnv) * 1000
   \<and> maxSegmentAge (constructor noEnv) = 12000
   \<and> statusOf ''s1'' (run started demoManager) = Some Running
   \<and> latestSegmentAgeOf ''s1''
         (checkStreamSegmentHealth ''s1'' 30000 noEnv agedView (run started demoManager))
       = Some 20
   \<and> healthOf ''s1''
         (checkStreamSegmentHealth ''s1'' 30000 noEnv agedView (run started demoManager))
       = Some Good
   \<and> healthCheckStatusOf ''s1''
         (checkStreamSegmentHealth ''s1'' 30000 noEnv agedView (run started demoManager))
       = Some ''Healthy''"
  by (simp add: started_def eval_defs check_defs healthOf_def healthCheckStatusOf_def
      latestSegmentAgeOf_def agedView_def floor_41_2)

subsection \<open>Redirects\<close>

declare fetchUrl.simps [simp del]

lemma fetchUrl_too_many:
  "redirectChain web originOf u (Suc n) \<Longrightarrow> fetchUrl web originOf u n = Inl TooManyRedirects"
proof (induction n arbitrary: u)
  case 0
  then show ?case
    by (auto simp: fetchUrl.simps [of web originOf u 0] split: response.splits option.splits)
next
  case (Suc n)
  from Suc.prems obtain code loc body where
    w: "web u = Response code (Some loc) body"
    and c: "code \<ge> 300" "code < 400" "loc \<noteq> []"
    and r: "redirectChain web originOf
              (if startsWith ''http'' loc then loc else originOf u @ loc) (Suc n)"
    by (auto split: response.splits option.splits)
  show ?case
    using Suc.IH [OF r] w c by (simp add: fetchUrl.simps [of web originOf u "Suc n"])
qed

lemma loop_chain: "redirectChain loopWeb loopOrigin loopUrl 6"
  by (simp add: eval_nat_numeral loopWeb_def loopUrl_def startsWith_def)

text \<open>
  C8, as amended. For a source URL whose playlist fetch needs more than five redirects,
  the fetch fails with \<open>Too many redirects\<close>, and \<open>analyzeHlsPlaylist\<close> does not fail: it
  returns the original URL, with no variant selected.
\<close>

theorem analyzeHlsPlaylist_redirects_fall_back:
  assumes "redirectChain web originOf u 6"
  shows "fetchUrl web originOf u 5 = Inl TooManyRedirects
         \<and> analyzeHlsPlaylist web originOf parseVariants u = Inr (u, None)"
proof -
  have "redirectChain web originOf u (Suc 5)" using assms by (simp add: eval_nat_numeral)
  then have "fetchUrl web originOf u 5 = Inl TooManyRedirects" by (rule fetchUrl_too_many)
  then show ?thesis by (simp add: analyzeHlsPlaylist_def)
qed

theorem analyzeHlsPlaylist_redirects_fall_back_witness:
  "fetchUrl loopWeb loopOrigin loopUrl 5 = Inl TooManyRedirects
   \<and> analyzeHlsPlaylist loopWeb loopOrigin noVariants loopUrl = Inr (loopUrl, None)"
  using analyzeHlsPlaylist_redirects_fall_back [OF loop_chain] by simp

text \<open>
  C8 as the specification states it fails on a server that redirects every request to the
  same URL: the fetch needs more than five redirects, and resolving the URL returns a
  candidate, the URL itself, instead of failing with \<open>TooManyRedirects\<close>.
\<close>

theorem analyzeHlsPlaylist_returns_url_after_redirects:
  "redirectChain loopWeb loopOrigin loopUrl 6
   \<and> analyzeHlsPlaylist loopWeb loopOrigin noVariants loopUrl \<noteq> Inl TooManyRedirects
   \<and> analyzeHlsPlaylist loopWeb loopOrigin noVariants loopUrl = Inr (loopUrl, None)"
proof -
  have "fetchUrl loopWeb loopOrigin loopUrl 5 = Inl TooManyRedirects"
    using loop_chain by (intro fetchUrl_too_many) (simp add: eval_nat_numeral)
  then show ?thesis using loop_chain by (simp add: analyzeHlsPlaylist_def)
qed

end
